theory Spec2Isabelle
  imports Main "HOL-Library.List_Lexorder" "HOL-Library.Char_ord"
begin

section \<open>Autogenerate: schema comparison and rendering of migration commands\<close>

text \<open>
  A shallow embedding of \<^verbatim>\<open>alembic/autogenerate.py\<close>. Python objects of the
  SQLAlchemy library are data here; what the library, the database and the Python
  runtime compute (reflection, the comparison predicates of the migration context,
  \<^verbatim>\<open>repr\<close>, the iteration order of a \<^verbatim>\<open>set\<close>) is a field of the record
  \<open>autogen_context\<close>. Exceptions are values of the type \<open>error\<close>.
\<close>

subsection \<open>Python values\<close>

datatype error =
    CommandError string
  | KeyError string
  | IndexError
  | ValueError
  | TypeError
  | AttributeError

text \<open>A type object: the module of its class, its \<^verbatim>\<open>repr\<close>, and whether
  \<^verbatim>\<open>_type_affinity is sqltypes.NullType\<close>.\<close>

datatype sqltype = SqlType (ty_module: string) (ty_repr: string) (ty_null_affinity: bool)

text \<open>A SQL expression is opaque; the dialect compiles it to text.\<close>

datatype sqlexpr = SqlExpr string

datatype clause_arg = ArgStr string | ArgExpr sqlexpr

text \<open>The server default of a declared column: a \<^verbatim>\<open>schema.DefaultClause\<close> or
  another \<^verbatim>\<open>FetchedValue\<close>.\<close>

datatype server_default = DefaultClause clause_arg | FetchedValue

datatype pyval =
    PyNone
  | PyBool bool
  | PyStr string
  | PyType sqltype
  | PyDefault server_default

text \<open>Declared column (\<^verbatim>\<open>schema.Column\<close>), observed column record (the dictionary
  the inspector returns), constraints and tables.\<close>

datatype column =
  Column (c_name: string) (c_type: sqltype) (c_nullable: "bool option")
         (c_server_default: "server_default option")

datatype conn_col =
  ConnCol (cc_name: string) (cc_type: sqltype) (cc_nullable: "bool option")
          (cc_default: "string option")

datatype constraint =
    PrimaryKeyConstraint "string option" "string list"
  | ForeignKeyConstraint "string option" "(string \<times> string) list"
  | CheckConstraint "string option"
  | OtherConstraint

datatype table = Table (t_name: string) (t_c: "column list") (t_constraints: "constraint list")

text \<open>A diff is a tuple \<^verbatim>\<open>(tag, table)\<close> or \<^verbatim>\<open>(tag, tname, column)\<close>, or the list
  of the \<^verbatim>\<open>modify_*\<close> tuples
  \<^verbatim>\<open>(tag, tname, cname, diff_kw, old, new)\<close> of one column.\<close>

datatype cmd_args = TableArgs table | ColumnArgs string column

datatype modify =
  Modify (m_tag: string) (m_tname: string) (m_cname: string)
         (m_kw: "(string \<times> pyval) list") (m_old: pyval) (m_new: pyval)

datatype diff = AddDrop string cmd_args | ModifyGroup "modify list"

fun of_nullable :: "bool option \<Rightarrow> pyval" where
  "of_nullable None = PyNone"
| "of_nullable (Some b) = PyBool b"

fun of_conn_default :: "string option \<Rightarrow> pyval" where
  "of_conn_default None = PyNone"
| "of_conn_default (Some s) = PyStr s"

fun of_server_default :: "server_default option \<Rightarrow> pyval" where
  "of_server_default None = PyNone"
| "of_server_default (Some d) = PyDefault d"

text \<open>Truth value of a Python object in a condition.\<close>

fun truthy :: "pyval \<Rightarrow> bool" where
  "truthy PyNone = False"
| "truthy (PyBool b) = b"
| "truthy (PyStr s) = (s \<noteq> [])"
| "truthy (PyType t) = True"
| "truthy (PyDefault d) = True"

subsection \<open>The environment\<close>

record opts =
  target_metadata :: "table list option"
  upgrade_token :: string
  downgrade_token :: string
  sqlalchemy_module_prefix :: "string option"
  alembic_module_prefix :: "string option"

text \<open>
  The migration context with its connection, the inspector on it, and the runtime:
  \<^item> \<open>context_compare_type\<close>, \<open>context_compare_server_default\<close>: the context's predicates;
  \<^item> \<open>get_table_names\<close>, \<open>get_columns\<close>, \<open>reflecttable\<close>: the inspector;
  \<^item> \<open>referred_tables\<close>: the tables that the reflection of a table loads into the same
    MetaData object, those its foreign keys refer to;
  \<^item> \<open>compile_default\<close>: \<^verbatim>\<open>str(arg.compile(dialect=...))\<close>;
  \<^item> \<open>repr_str\<close>, \<open>repr_default\<close>: \<^verbatim>\<open>repr\<close> of a string and of a default object;
  \<^item> \<open>set_order\<close>: the order in which the runtime iterates over a \<^verbatim>\<open>set\<close> that
    holds the given elements. Python does not specify it.
\<close>

record autogen_context =
  ctx_opts :: opts
  env_py_location :: string
  context_compare_type :: "conn_col \<Rightarrow> column \<Rightarrow> bool"
  context_compare_server_default :: "conn_col \<Rightarrow> column \<Rightarrow> string option \<Rightarrow> bool"
  get_table_names :: "string list"
  get_columns :: "string \<Rightarrow> conn_col list"
  reflecttable :: "string \<Rightarrow> column list \<times> constraint list"
  referred_tables :: "string \<Rightarrow> string list"
  compile_default :: "sqlexpr \<Rightarrow> string"
  repr_str :: "string \<Rightarrow> string"
  repr_default :: "server_default \<Rightarrow> string"
  set_order :: "string list \<Rightarrow> string list"

subsection \<open>Strings, sets and dictionaries\<close>

definition nl :: string where
  "nl = [CHR 0x0A]"

definition sq :: string where
  "sq = [CHR 0x27]"

fun join :: "string \<Rightarrow> string list \<Rightarrow> string" where
  "join sep [] = []"
| "join sep [x] = x"
| "join sep (x # y # ys) = x @ sep @ join sep (y # ys)"

fun split_on :: "char \<Rightarrow> string \<Rightarrow> string list" where
  "split_on sep [] = [[]]"
| "split_on sep (c # cs) =
     (if c = sep then [] # split_on sep cs
      else (case split_on sep cs of
              w # ws \<Rightarrow> (c # w) # ws
            | [] \<Rightarrow> [[c]]))"

definition is_space :: "char \<Rightarrow> bool" where
  "is_space c = (c \<in> set [CHR '' '', CHR 0x09, CHR 0x0A, CHR 0x0B, CHR 0x0C, CHR 0x0D])"

definition strip :: "string \<Rightarrow> string" where
  "strip s = rev (dropWhile is_space (rev (dropWhile is_space s)))"

definition is_word :: "char \<Rightarrow> bool" where
  "is_word c =
     ((CHR ''a'' \<le> c \<and> c \<le> CHR ''z'') \<or> (CHR ''A'' \<le> c \<and> c \<le> CHR ''Z'') \<or>
      (CHR ''0'' \<le> c \<and> c \<le> CHR ''9'') \<or> c = CHR ''_'')"

text \<open>\<^verbatim>\<open>"%s" % x\<close> for a string or None.\<close>

fun str_opt :: "string option \<Rightarrow> string" where
  "str_opt None = ''None''"
| "str_opt (Some s) = s"

text \<open>A Python set is the list of its elements in iteration order.\<close>

definition py_set :: "autogen_context \<Rightarrow> string list \<Rightarrow> string list" where
  "py_set ctx xs = set_order ctx (remdups xs)"

definition difference :: "autogen_context \<Rightarrow> string list \<Rightarrow> string list \<Rightarrow> string list" where
  "difference ctx A B = set_order ctx (filter (\<lambda>x. x \<notin> set B) A)"

definition intersection :: "autogen_context \<Rightarrow> string list \<Rightarrow> string list \<Rightarrow> string list" where
  "intersection ctx A B = set_order ctx (filter (\<lambda>x. x \<in> set B) A)"

text \<open>A dictionary built from pairs: the last pair of a key wins. \<^verbatim>\<open>d[k]\<close> raises
  KeyError on a missing key.\<close>

definition dict_get :: "(string \<times> 'v) list \<Rightarrow> string \<Rightarrow> 'v option" where
  "dict_get d k = map_of (rev d) k"

definition dict_item :: "(string \<times> 'v) list \<Rightarrow> string \<Rightarrow> error + 'v" where
  "dict_item d k = (case dict_get d k of None \<Rightarrow> Inl (KeyError k) | Some v \<Rightarrow> Inr v)"

definition dict_keys :: "(string \<times> 'v) list \<Rightarrow> string list" where
  "dict_keys d = map fst d"

text \<open>A loop whose body may raise.\<close>

fun foldE :: "('a \<Rightarrow> 's \<Rightarrow> error + 's) \<Rightarrow> 'a list \<Rightarrow> 's \<Rightarrow> error + 's" where
  "foldE f [] s = Inr s"
| "foldE f (x # xs) s = (case f x s of Inl e \<Rightarrow> Inl e | Inr s' \<Rightarrow> foldE f xs s')"

fun bindE :: "error + 'a \<Rightarrow> ('a \<Rightarrow> error + 'b) \<Rightarrow> error + 'b" where
  "bindE (Inl e) f = Inl e"
| "bindE (Inr x) f = f x"

subsection \<open>Rendering a server default\<close>

text \<open>\<^verbatim>\<open>re.sub(r"^'|'$", "", default)\<close>: a quote at the start is removed, and a quote
  at the end (\<^verbatim>\<open>$\<close> also matches before a final newline).\<close>

definition strip_quotes :: "string \<Rightarrow> string" where
  "strip_quotes s =
     (let s1 = (case s of [] \<Rightarrow> s | c # cs \<Rightarrow> if c = CHR 0x27 then cs else s) in
      if s1 \<noteq> [] \<and> last s1 = CHR 0x27 then butlast s1
      else if 2 \<le> length s1 \<and> last s1 = CHR 0x0A \<and> last (butlast s1) = CHR 0x27
        then butlast (butlast s1) @ [CHR 0x0A]
      else s1)"

definition render_server_default :: "pyval \<Rightarrow> autogen_context \<Rightarrow> string option" where
  "render_server_default dflt ctx =
     (let dflt1 =
        (case dflt of
           PyDefault (DefaultClause (ArgStr s)) \<Rightarrow> PyStr s
         | PyDefault (DefaultClause (ArgExpr e)) \<Rightarrow> PyStr (compile_default ctx e)
         | _ \<Rightarrow> dflt)
      in case dflt1 of
           PyStr s \<Rightarrow> Some (sq @ strip_quotes s @ sq)
         | _ \<Rightarrow> None)"

subsection \<open>Element comparison\<close>

text \<open>The attribute comparators append to the list \<^verbatim>\<open>col_diff\<close> of one column and
  to the log; the state is the pair of both.\<close>

definition col_label :: "string \<Rightarrow> string \<Rightarrow> string" where
  "col_label tname cname = sq @ tname @ ''.'' @ cname @ sq"

definition compare_nullable ::
  "string \<Rightarrow> string \<Rightarrow> conn_col \<Rightarrow> bool option \<Rightarrow> autogen_context \<Rightarrow>
   modify list \<times> string list \<Rightarrow> modify list \<times> string list" where
  "compare_nullable tname cname conn_col metadata_col_nullable ctx st =
     (let conn_col_nullable = cc_nullable conn_col in
      if conn_col_nullable \<noteq> metadata_col_nullable then
        (fst st @
           [Modify ''modify_nullable'' tname cname
              [(''existing_type'', PyType (cc_type conn_col)),
               (''existing_server_default'', of_conn_default (cc_default conn_col))]
              (of_nullable conn_col_nullable)
              (of_nullable metadata_col_nullable)],
         snd st @
           [''Detected '' @
            (if metadata_col_nullable = Some True then ''NULL'' else ''NOT NULL'') @
            '' on column '' @ col_label tname cname])
      else st)"

definition compare_type ::
  "string \<Rightarrow> string \<Rightarrow> conn_col \<Rightarrow> column \<Rightarrow> autogen_context \<Rightarrow>
   modify list \<times> string list \<Rightarrow> modify list \<times> string list" where
  "compare_type tname cname conn_col metadata_col ctx st =
     (let conn_type = cc_type conn_col;
          metadata_type = c_type metadata_col in
      if ty_null_affinity conn_type then
        (fst st,
         snd st @ [''Couldn'' @ sq @ ''t determine database type for column '' @
                   col_label tname cname])
      else if ty_null_affinity metadata_type then
        (fst st,
         snd st @ [''Column '' @ col_label tname cname @
                   '' has no type within the model; can'' @ sq @ ''t compare''])
      else if context_compare_type ctx conn_col metadata_col then
        (fst st @
           [Modify ''modify_type'' tname cname
              [(''existing_nullable'', of_nullable (cc_nullable conn_col)),
               (''existing_server_default'', of_conn_default (cc_default conn_col))]
              (PyType conn_type)
              (PyType metadata_type)],
         snd st @
           [''Detected type change from '' @ ty_repr conn_type @ '' to '' @
            ty_repr metadata_type @ '' on '' @ col_label tname cname])
      else st)"

definition compare_server_default ::
  "string \<Rightarrow> string \<Rightarrow> conn_col \<Rightarrow> column \<Rightarrow> autogen_context \<Rightarrow>
   modify list \<times> string list \<Rightarrow> modify list \<times> string list" where
  "compare_server_default tname cname conn_col metadata_col ctx st =
     (let metadata_default = c_server_default metadata_col;
          conn_col_default = cc_default conn_col in
      if conn_col_default = None \<and> metadata_default = None then st
      else
        let rendered_metadata_default =
              render_server_default (of_server_default metadata_default) ctx;
            isdiff = context_compare_server_default ctx conn_col metadata_col
                       rendered_metadata_default
        in if isdiff then
             (fst st @
                [Modify ''modify_default'' tname cname
                   [(''existing_nullable'', of_nullable (cc_nullable conn_col)),
                    (''existing_type'', PyType (cc_type conn_col))]
                   (of_conn_default conn_col_default)
                   (of_server_default metadata_default)],
              snd st @
                [''Detected server default on column '' @ col_label tname cname])
           else st)"

text \<open>\<^verbatim>\<open>schema.Column(cname, type, nullable=..., server_default=...)\<close>: the constructor
  wraps a server default given as a string into a \<^verbatim>\<open>DefaultClause\<close>.\<close>

definition schema_Column ::
  "string \<Rightarrow> sqltype \<Rightarrow> bool option \<Rightarrow> string option \<Rightarrow> column" where
  "schema_Column cname ty nullable dflt =
     Column cname ty nullable (map_option (\<lambda>s. DefaultClause (ArgStr s)) dflt)"

text \<open>The three comparators on one column, in the order type, nullable, default,
  starting from an empty \<^verbatim>\<open>col_diff\<close>.\<close>

definition compare_attributes ::
  "string \<Rightarrow> string \<Rightarrow> conn_col \<Rightarrow> column \<Rightarrow> autogen_context \<Rightarrow> string list \<Rightarrow>
   modify list \<times> string list" where
  "compare_attributes tname colname conn_col metadata_col ctx log =
     compare_server_default tname colname conn_col metadata_col ctx
       (compare_nullable tname colname conn_col (c_nullable metadata_col) ctx
          (compare_type tname colname conn_col metadata_col ctx ([], log)))"

definition cols_by_name :: "table \<Rightarrow> (string \<times> column) list" where
  "cols_by_name metadata_table = map (\<lambda>c. (c_name c, c)) (t_c metadata_table)"

definition compare_columns ::
  "string \<Rightarrow> (string \<times> conn_col) list \<Rightarrow> table \<Rightarrow> autogen_context \<Rightarrow>
   diff list \<times> string list \<Rightarrow> error + diff list \<times> string list" where
  "compare_columns tname conn_table metadata_table ctx st =
     (let metadata_cols_by_name = cols_by_name metadata_table;
          conn_col_names = py_set ctx (dict_keys conn_table);
          metadata_col_names = py_set ctx (dict_keys metadata_cols_by_name)
      in
      bindE (foldE (\<lambda>cname s.
                 bindE (dict_item metadata_cols_by_name cname) (\<lambda>c.
                   Inr (fst s @ [AddDrop ''add_column'' (ColumnArgs tname c)],
                        snd s @ [''Detected added column '' @ col_label tname cname])))
               (difference ctx metadata_col_names conn_col_names) st) (\<lambda>st1.
      bindE (foldE (\<lambda>cname s.
                 bindE (dict_item conn_table cname) (\<lambda>r.
                   Inr (fst s @ [AddDrop ''remove_column'' (ColumnArgs tname
                                   (schema_Column cname (cc_type r) (cc_nullable r)
                                      (cc_default r)))],
                        snd s @ [''Detected removed column '' @ col_label tname cname])))
               (difference ctx conn_col_names metadata_col_names) st1) (\<lambda>st2.
      foldE (\<lambda>colname s.
                 bindE (dict_item metadata_cols_by_name colname) (\<lambda>metadata_col.
                 bindE (dict_item conn_table colname) (\<lambda>conn_col.
                   let r = compare_attributes tname colname conn_col metadata_col ctx (snd s)
                   in Inr (if fst r \<noteq> [] then fst s @ [ModifyGroup (fst r)] else fst s,
                           snd r))))
               (intersection ctx metadata_col_names conn_col_names) st2)))"

subsection \<open>Walking the structures\<close>

text \<open>\<^verbatim>\<open>metadata.tables\<close>: the tables of the MetaData object by name.\<close>

definition tables :: "table list \<Rightarrow> (string \<times> table) list" where
  "tables metadata = map (\<lambda>t. (t_name t, t)) metadata"

text \<open>The table object of \<^verbatim>\<open>schema.Table(tname, removal_metadata)\<close> after
  \<^verbatim>\<open>inspector.reflecttable(t, None)\<close>: the name with the reflected columns and
  constraints. A table that is in \<^verbatim>\<open>removal_metadata\<close> already was loaded there by the
  reflection of a table that refers to it, and is that same reflected table.\<close>

definition reflected_table :: "autogen_context \<Rightarrow> string \<Rightarrow> table" where
  "reflected_table ctx tname =
     Table tname (fst (reflecttable ctx tname)) (snd (reflecttable ctx tname))"

text \<open>The second loop carries the names of the tables in \<^verbatim>\<open>removal_metadata\<close> as a third
  component of its state.\<close>

definition compare_tables ::
  "string list \<Rightarrow> string list \<Rightarrow> table list \<Rightarrow> autogen_context \<Rightarrow>
   diff list \<times> string list \<Rightarrow> error + diff list \<times> string list" where
  "compare_tables conn_table_names metadata_table_names metadata ctx st =
     bindE (foldE (\<lambda>tname s.
                bindE (dict_item (tables metadata) tname) (\<lambda>t.
                  Inr (fst s @ [AddDrop ''add_table'' (TableArgs t)],
                       snd s @ [''Detected added table '' @ repr_str ctx tname])))
              (difference ctx metadata_table_names conn_table_names) st) (\<lambda>st1.
     bindE (foldE (\<lambda>tname s.
                let removal_metadata = snd (snd s);
                    exists = (tname \<in> set removal_metadata);
                    t = reflected_table ctx tname
                in Inr (fst s @ [AddDrop ''remove_table'' (TableArgs t)],
                        fst (snd s) @ [''Detected removed table '' @ repr_str ctx tname],
                        if exists then removal_metadata
                        else removal_metadata @ [tname] @ referred_tables ctx tname))
              (difference ctx conn_table_names metadata_table_names)
              (fst st1, snd st1, [])) (\<lambda>st2.
     let existing_tables = intersection ctx conn_table_names metadata_table_names;
         conn_column_info =
           map (\<lambda>tname. (tname, map (\<lambda>rec. (cc_name rec, rec)) (get_columns ctx tname)))
             existing_tables
     in foldE (\<lambda>tname s.
                bindE (dict_item conn_column_info tname) (\<lambda>conn_table.
                bindE (dict_item (tables metadata) tname) (\<lambda>metadata_table.
                  compare_columns tname conn_table metadata_table ctx s)))
              (sort existing_tables) (fst st2, fst (snd st2))))"

definition produce_net_changes ::
  "table list \<Rightarrow> autogen_context \<Rightarrow> diff list \<times> string list \<Rightarrow>
   error + diff list \<times> string list" where
  "produce_net_changes metadata ctx st =
     (let conn_table_names =
            difference ctx (py_set ctx (get_table_names ctx)) [''alembic_version''];
          metadata_table_names = py_set ctx (dict_keys (tables metadata))
      in compare_tables conn_table_names metadata_table_names metadata ctx st)"

subsection \<open>Rendering\<close>

text \<open>The set \<^verbatim>\<open>imports\<close> of the context is the only state of rendering:
  \<^verbatim>\<open>_repr_type\<close> adds to it. It may be None.\<close>

type_synonym import_set = "string list option"

definition add_import :: "string \<Rightarrow> string list \<Rightarrow> string list" where
  "add_import x imps = (if x \<in> set imps then imps else imps @ [x])"

fun mapR ::
  "('a \<Rightarrow> import_set \<Rightarrow> error + ('b \<times> import_set)) \<Rightarrow> 'a list \<Rightarrow> import_set \<Rightarrow>
   error + ('b list \<times> import_set)" where
  "mapR f [] imps = Inr ([], imps)"
| "mapR f (x # xs) imps =
     (case f x imps of
        Inl e \<Rightarrow> Inl e
      | Inr (y, imps1) \<Rightarrow>
          (case mapR f xs imps1 of
             Inl e \<Rightarrow> Inl e
           | Inr (ys, imps2) \<Rightarrow> Inr (y # ys, imps2)))"

definition sqlalchemy_autogenerate_prefix :: "autogen_context \<Rightarrow> string" where
  "sqlalchemy_autogenerate_prefix ctx =
     (case sqlalchemy_module_prefix (ctx_opts ctx) of None \<Rightarrow> [] | Some p \<Rightarrow> p)"

definition alembic_autogenerate_prefix :: "autogen_context \<Rightarrow> string" where
  "alembic_autogenerate_prefix ctx =
     (case alembic_module_prefix (ctx_opts ctx) of None \<Rightarrow> [] | Some p \<Rightarrow> p)"

text \<open>\<^verbatim>\<open>type(x).__module__\<close> and \<^verbatim>\<open>repr(x)\<close> of a value.\<close>

fun py_module :: "pyval \<Rightarrow> string" where
  "py_module (PyType t) = ty_module t"
| "py_module (PyDefault d) = ''sqlalchemy.schema''"
| "py_module v = ''__builtin__''"

fun py_repr :: "autogen_context \<Rightarrow> pyval \<Rightarrow> string" where
  "py_repr ctx PyNone = ''None''"
| "py_repr ctx (PyBool b) = (if b then ''True'' else ''False'')"
| "py_repr ctx (PyStr s) = repr_str ctx s"
| "py_repr ctx (PyType t) = ty_repr t"
| "py_repr ctx (PyDefault d) = repr_default ctx d"

text \<open>\<^verbatim>\<open>re.match(r"sqlalchemy\.dialects\.(\w+)", mod)\<close> on a module name that starts
  with \<^verbatim>\<open>sqlalchemy.dialects\<close>: the group, or None when there is no match.\<close>

definition dialect_name :: "string \<Rightarrow> string option" where
  "dialect_name modname =
     (case drop 19 modname of
        [] \<Rightarrow> None
      | c # cs \<Rightarrow>
          if c = CHR ''.'' \<and> takeWhile is_word cs \<noteq> [] then Some (takeWhile is_word cs)
          else None)"

definition repr_type ::
  "string \<Rightarrow> pyval \<Rightarrow> autogen_context \<Rightarrow> import_set \<Rightarrow> error + (string \<times> import_set)" where
  "repr_type prefix ty ctx imps =
     (let modname = py_module ty in
      if take 19 modname = ''sqlalchemy.dialects'' then
        (case dialect_name modname of
           None \<Rightarrow> Inl AttributeError
         | Some dname \<Rightarrow>
             Inr (dname @ ''.'' @ py_repr ctx ty,
                  map_option (add_import (''from sqlalchemy.dialects import '' @ dname)) imps))
      else Inr (prefix @ py_repr ctx ty, imps))"

definition render_column ::
  "column \<Rightarrow> autogen_context \<Rightarrow> import_set \<Rightarrow> error + (string \<times> import_set)" where
  "render_column col ctx imps =
     (let opts1 =
            (if c_server_default col \<noteq> None
             then [(''server_default'',
                    str_opt (render_server_default (of_server_default (c_server_default col)) ctx))]
             else []);
          opts2 =
            (case c_nullable col of
               None \<Rightarrow> opts1
             | Some b \<Rightarrow> opts1 @ [(''nullable'', py_repr ctx (PyBool b))])
      in bindE (repr_type (sqlalchemy_autogenerate_prefix ctx) (PyType (c_type col)) ctx imps)
           (\<lambda>r. Inr (sqlalchemy_autogenerate_prefix ctx @ ''Column('' @
                     repr_str ctx (c_name col) @ '', '' @ fst r @ '', '' @
                     join '', '' (map (\<lambda>kv. fst kv @ ''='' @ snd kv) opts2) @ '')'',
                     snd r)))"

definition name_opts :: "autogen_context \<Rightarrow> string option \<Rightarrow> string list" where
  "name_opts ctx name =
     (case name of
        None \<Rightarrow> []
      | Some n \<Rightarrow> if n \<noteq> [] then [''name='' @ repr_str ctx n] else [])"

definition render_primary_key :: "string option \<Rightarrow> string list \<Rightarrow> autogen_context \<Rightarrow> string" where
  "render_primary_key name cols ctx =
     sqlalchemy_autogenerate_prefix ctx @ ''PrimaryKeyConstraint('' @
     join '', '' (map (repr_str ctx) cols @ name_opts ctx name) @ '')''"

definition render_foreign_key ::
  "string option \<Rightarrow> (string \<times> string) list \<Rightarrow> autogen_context \<Rightarrow> string" where
  "render_foreign_key name elements ctx =
     sqlalchemy_autogenerate_prefix ctx @ ''ForeignKeyConstraint(['' @
     join '', '' (map (\<lambda>f. sq @ fst f @ sq) elements) @ ''], ['' @
     join '', '' (map (\<lambda>f. repr_str ctx (snd f)) elements) @ ''], '' @
     join '', '' (name_opts ctx name) @ '')''"

definition render_check_constraint :: "string option \<Rightarrow> autogen_context \<Rightarrow> string" where
  "render_check_constraint name ctx =
     sqlalchemy_autogenerate_prefix ctx @ ''CheckConstraint('' @ sq @ ''TODO'' @ sq @ '')''"

fun render_constraint :: "constraint \<Rightarrow> autogen_context \<Rightarrow> string option" where
  "render_constraint (PrimaryKeyConstraint name cols) ctx = Some (render_primary_key name cols ctx)"
| "render_constraint (ForeignKeyConstraint name elements) ctx =
     Some (render_foreign_key name elements ctx)"
| "render_constraint (CheckConstraint name) ctx = Some (render_check_constraint name ctx)"
| "render_constraint OtherConstraint ctx = None"

definition add_table ::
  "table \<Rightarrow> autogen_context \<Rightarrow> import_set \<Rightarrow> error + (string \<times> import_set)" where
  "add_table tbl ctx imps =
     bindE (mapR (\<lambda>col. render_column col ctx) (t_c tbl) imps)
       (\<lambda>r. Inr (alembic_autogenerate_prefix ctx @ ''create_table('' @
                 repr_str ctx (t_name tbl) @ '','' @ nl @
                 join ('','' @ nl)
                   (fst r @
                    sort (List.map_filter (\<lambda>cons. render_constraint cons ctx)
                            (t_constraints tbl))) @
                 nl @ '')'',
                 snd r))"

definition drop_table :: "table \<Rightarrow> autogen_context \<Rightarrow> string" where
  "drop_table tbl ctx =
     alembic_autogenerate_prefix ctx @ ''drop_table('' @ repr_str ctx (t_name tbl) @ '')''"

definition add_column ::
  "string \<Rightarrow> column \<Rightarrow> autogen_context \<Rightarrow> import_set \<Rightarrow> error + (string \<times> import_set)" where
  "add_column tname col ctx imps =
     bindE (render_column col ctx imps)
       (\<lambda>r. Inr (alembic_autogenerate_prefix ctx @ ''add_column('' @ repr_str ctx tname @
                 '', '' @ fst r @ '')'',
                 snd r))"

definition drop_column :: "string \<Rightarrow> column \<Rightarrow> autogen_context \<Rightarrow> string" where
  "drop_column tname col ctx =
     alembic_autogenerate_prefix ctx @ ''drop_column('' @ repr_str ctx tname @ '', '' @
     repr_str ctx (c_name col) @ '')''"

text \<open>The keyword arguments that \<^verbatim>\<open>_modify_col\<close> writes into the call, in order,
  each with its rendered value.\<close>

definition modify_col_fields ::
  "autogen_context \<Rightarrow> pyval \<Rightarrow> pyval \<Rightarrow> pyval \<Rightarrow> pyval \<Rightarrow> pyval \<Rightarrow> pyval \<Rightarrow> import_set \<Rightarrow>
   error + ((string \<times> string) list \<times> import_set)" where
  "modify_col_fields ctx server_default new_type nullable existing_type existing_nullable
       existing_server_default imps =
     (let sqla_prefix = sqlalchemy_autogenerate_prefix ctx in
      bindE (repr_type sqla_prefix existing_type ctx imps) (\<lambda>r1.
      bindE (if new_type \<noteq> PyNone
             then bindE (repr_type sqla_prefix new_type ctx (snd r1))
                    (\<lambda>r. Inr ([(''type_'', fst r)], snd r))
             else Inr ([], snd r1)) (\<lambda>r2.
      Inr ([(''existing_type'', fst r1)] @
           (if server_default \<noteq> PyBool False
            then [(''server_default'', str_opt (render_server_default server_default ctx))]
            else []) @
           fst r2 @
           (if nullable \<noteq> PyNone then [(''nullable'', py_repr ctx nullable)] else []) @
           (if existing_nullable \<noteq> PyNone
            then [(''existing_nullable'', py_repr ctx existing_nullable)] else []) @
           (if truthy existing_server_default
            then [(''existing_server_default'',
                   str_opt (render_server_default existing_server_default ctx))]
            else []),
           snd r2))))"

definition modify_col ::
  "string \<Rightarrow> string \<Rightarrow> autogen_context \<Rightarrow> pyval \<Rightarrow> pyval \<Rightarrow> pyval \<Rightarrow> pyval \<Rightarrow> pyval \<Rightarrow>
   pyval \<Rightarrow> import_set \<Rightarrow> error + (string \<times> import_set)" where
  "modify_col tname cname ctx server_default new_type nullable existing_type existing_nullable
       existing_server_default imps =
     bindE (modify_col_fields ctx server_default new_type nullable existing_type
              existing_nullable existing_server_default imps)
       (\<lambda>r. Inr (alembic_autogenerate_prefix ctx @ ''alter_column('' @ repr_str ctx tname @
                 '', '' @ repr_str ctx cname @
                 concat (map (\<lambda>kv. '', '' @ nl @ replicate 11 (CHR '' '') @
                                    fst kv @ ''='' @ snd kv) (fst r)) @
                 '')'',
                 snd r))"

subsection \<open>Producing the command structure\<close>

text \<open>The table \<^verbatim>\<open>_commands\<close>: the pair (drop, add) of renderers of a command type.
  A renderer is called with the rest of the diff tuple as its arguments; a tuple of the
  wrong length is a TypeError.\<close>

definition commands ::
  "string \<Rightarrow>
   ((cmd_args \<Rightarrow> autogen_context \<Rightarrow> import_set \<Rightarrow> error + (string \<times> import_set)) \<times>
    (cmd_args \<Rightarrow> autogen_context \<Rightarrow> import_set \<Rightarrow> error + (string \<times> import_set))) option" where
  "commands cmd_type =
     (if cmd_type = ''table'' then
        Some (\<lambda>a ctx imps. (case a of TableArgs t \<Rightarrow> Inr (drop_table t ctx, imps)
                                     | ColumnArgs tn c \<Rightarrow> Inl TypeError),
              \<lambda>a ctx imps. (case a of TableArgs t \<Rightarrow> add_table t ctx imps
                                     | ColumnArgs tn c \<Rightarrow> Inl TypeError))
      else if cmd_type = ''column'' then
        Some (\<lambda>a ctx imps. (case a of ColumnArgs tn c \<Rightarrow> Inr (drop_column tn c ctx, imps)
                                     | TableArgs t \<Rightarrow> Inl TypeError),
              \<lambda>a ctx imps. (case a of ColumnArgs tn c \<Rightarrow> add_column tn c ctx imps
                                     | TableArgs t \<Rightarrow> Inl TypeError))
      else None)"

definition invoke_adddrop_command ::
  "string \<Rightarrow> string \<Rightarrow> cmd_args \<Rightarrow> autogen_context \<Rightarrow> import_set \<Rightarrow>
   error + (string \<times> import_set)" where
  "invoke_adddrop_command updown tag cmd_args ctx imps =
     (case split_on (CHR ''_'') tag of
        [adddrop, cmd_type] \<Rightarrow>
          (case commands cmd_type of
             None \<Rightarrow> Inl (KeyError cmd_type)
           | Some cmd_callables \<Rightarrow>
               if (updown = ''upgrade'' \<and> adddrop = ''add'') \<or>
                  (updown = ''downgrade'' \<and> adddrop = ''remove'')
               then snd cmd_callables cmd_args ctx imps
               else fst cmd_callables cmd_args ctx imps)
      | _ \<Rightarrow> Inl ValueError)"

definition arg_struct :: "string \<Rightarrow> (string \<times> string) option" where
  "arg_struct tag =
     (if tag = ''modify_type'' then Some (''existing_type'', ''type_'')
      else if tag = ''modify_nullable'' then Some (''existing_nullable'', ''nullable'')
      else if tag = ''modify_default'' then Some (''existing_server_default'', ''server_default'')
      else None)"

definition setdefault :: "(string \<rightharpoonup> pyval) \<Rightarrow> string \<Rightarrow> pyval \<Rightarrow> (string \<rightharpoonup> pyval)" where
  "setdefault kw k v = (if kw k = None then kw(k \<mapsto> v) else kw)"

text \<open>One round of the loop over the group in \<^verbatim>\<open>_invoke_modify_command\<close>.\<close>

definition merge_diff ::
  "string \<Rightarrow> modify \<Rightarrow> (string \<rightharpoonup> pyval) \<Rightarrow> error + (string \<rightharpoonup> pyval)" where
  "merge_diff updown d kw =
     (let diff_kw = m_kw d;
          kw1 = fold (\<lambda>arg k. case dict_get diff_kw arg of
                                 None \<Rightarrow> k
                               | Some v \<Rightarrow> setdefault k arg v)
                  [''existing_type'', ''existing_nullable'', ''existing_server_default''] kw
      in case arg_struct (m_tag d) of
           None \<Rightarrow> Inl (KeyError (m_tag d))
         | Some (old_kw, new_kw) \<Rightarrow>
             if updown = ''upgrade''
             then Inr (kw1(new_kw \<mapsto> m_new d, old_kw \<mapsto> m_old d))
             else Inr (kw1(new_kw \<mapsto> m_old d, old_kw \<mapsto> m_new d)))"

text \<open>The dictionary \<^verbatim>\<open>kw\<close> that \<^verbatim>\<open>_invoke_modify_command\<close> passes to
  \<^verbatim>\<open>_modify_col\<close>.\<close>

definition modify_kw :: "string \<Rightarrow> modify list \<Rightarrow> error + (string \<rightharpoonup> pyval)" where
  "modify_kw updown args =
     bindE (foldE (merge_diff updown) args Map.empty) (\<lambda>kw.
       let kw1 = (if kw ''nullable'' \<noteq> None then kw(''existing_nullable'' := None) else kw);
           kw2 = (if kw1 ''server_default'' \<noteq> None
                  then kw1(''existing_server_default'' := None) else kw1)
       in Inr kw2)"

definition kwarg :: "(string \<rightharpoonup> pyval) \<Rightarrow> string \<Rightarrow> pyval \<Rightarrow> pyval" where
  "kwarg kw k dflt = (case kw k of None \<Rightarrow> dflt | Some v \<Rightarrow> v)"

definition invoke_modify_command ::
  "string \<Rightarrow> modify list \<Rightarrow> autogen_context \<Rightarrow> import_set \<Rightarrow>
   error + (string \<times> import_set)" where
  "invoke_modify_command updown args ctx imps =
     (case args of
        [] \<Rightarrow> Inl IndexError
      | d0 # ds \<Rightarrow>
          bindE (modify_kw updown args) (\<lambda>kw.
            modify_col (m_tname d0) (m_cname d0) ctx
              (kwarg kw ''server_default'' (PyBool False))
              (kwarg kw ''type_'' PyNone)
              (kwarg kw ''nullable'' PyNone)
              (kwarg kw ''existing_type'' PyNone)
              (kwarg kw ''existing_nullable'' PyNone)
              (kwarg kw ''existing_server_default'' (PyBool False))
              imps))"

fun invoke_command ::
  "string \<Rightarrow> diff \<Rightarrow> autogen_context \<Rightarrow> import_set \<Rightarrow> error + (string \<times> import_set)" where
  "invoke_command updown (AddDrop tag cmd_args) ctx imps =
     invoke_adddrop_command updown tag cmd_args ctx imps"
| "invoke_command updown (ModifyGroup args) ctx imps =
     invoke_modify_command updown args ctx imps"

definition produce_upgrade_commands ::
  "diff list \<Rightarrow> autogen_context \<Rightarrow> import_set \<Rightarrow> error + (string \<times> import_set)" where
  "produce_upgrade_commands diffs ctx imps =
     bindE (mapR (\<lambda>d. invoke_command ''upgrade'' d ctx) diffs imps)
       (\<lambda>r. Inr (join nl (if fst r = [] then [''pass''] else fst r), snd r))"

definition produce_downgrade_commands ::
  "diff list \<Rightarrow> autogen_context \<Rightarrow> import_set \<Rightarrow> error + (string \<times> import_set)" where
  "produce_downgrade_commands diffs ctx imps =
     bindE (mapR (\<lambda>d. invoke_command ''downgrade'' d ctx) diffs imps)
       (\<lambda>r. Inr (join nl (if fst r = [] then [''pass''] else fst r), snd r))"

subsection \<open>Top level\<close>

text \<open>\<^verbatim>\<open>re.compile(r'^', re.M).sub("    ", text)\<close>: four spaces at the start of the
  text and after every newline.\<close>

fun indent_lines :: "string \<Rightarrow> string" where
  "indent_lines [] = []"
| "indent_lines (c # cs) =
     (if c = CHR 0x0A then c # ''    '' @ indent_lines cs else c # indent_lines cs)"

definition indent :: "string \<Rightarrow> string" where
  "indent text =
     strip (''    '' @
            indent_lines
              (''### commands auto generated by Alembic - please adjust! ###'' @ nl @
               text @ nl @ ''### end Alembic commands ###''))"

text \<open>The result of a run: the template arguments, the imports and the log.\<close>

definition produce_migration_diffs ::
  "autogen_context \<Rightarrow> (string \<rightharpoonup> string) \<Rightarrow> import_set \<Rightarrow> string list \<Rightarrow>
   error + ((string \<rightharpoonup> string) \<times> import_set \<times> string list)" where
  "produce_migration_diffs ctx template_args imps log =
     (case target_metadata (ctx_opts ctx) of
        None \<Rightarrow>
          Inl (CommandError
                 (''Can'' @ sq @ ''t proceed with --autogenerate option; environment script '' @
                  env_py_location ctx @
                  '' does not provide a MetaData object to the context.''))
      | Some metadata \<Rightarrow>
          bindE (produce_net_changes metadata ctx ([], log)) (\<lambda>st.
          bindE (produce_upgrade_commands (fst st) ctx imps) (\<lambda>up.
          bindE (produce_downgrade_commands (fst st) ctx (snd up)) (\<lambda>down.
            case snd down of
              None \<Rightarrow> Inl TypeError
            | Some i \<Rightarrow>
                Inr (template_args
                       (upgrade_token (ctx_opts ctx) \<mapsto> indent (fst up),
                        downgrade_token (ctx_opts ctx) \<mapsto> indent (fst down),
                        ''imports'' \<mapsto> join nl (sort i)),
                     snd down, snd st)))))"

subsection \<open>Notions used in the properties\<close>

text \<open>The keyword arguments of the call that \<^verbatim>\<open>_invoke_modify_command\<close> renders for
  a group: \<open>invoke_modify_command\<close> up to the text of \<open>modify_col\<close>.\<close>

definition modify_call_fields ::
  "string \<Rightarrow> modify list \<Rightarrow> autogen_context \<Rightarrow> import_set \<Rightarrow>
   error + ((string \<times> string) list \<times> import_set)" where
  "modify_call_fields updown args ctx imps =
     (case args of
        [] \<Rightarrow> Inl IndexError
      | d0 # ds \<Rightarrow>
          bindE (modify_kw updown args) (\<lambda>kw.
            modify_col_fields ctx
              (kwarg kw ''server_default'' (PyBool False))
              (kwarg kw ''type_'' PyNone)
              (kwarg kw ''nullable'' PyNone)
              (kwarg kw ''existing_type'' PyNone)
              (kwarg kw ''existing_nullable'' PyNone)
              (kwarg kw ''existing_server_default'' (PyBool False))
              imps))"

text \<open>The table a diff is about.\<close>

fun diff_table :: "diff \<Rightarrow> string option" where
  "diff_table (AddDrop tag (TableArgs t)) = Some (t_name t)"
| "diff_table (AddDrop tag (ColumnArgs tname c)) = Some tname"
| "diff_table (ModifyGroup []) = None"
| "diff_table (ModifyGroup (d # ds)) = Some (m_tname d)"

text \<open>What Python guarantees of the iteration over a set: every element once.\<close>

definition set_order_ok :: "autogen_context \<Rightarrow> bool" where
  "set_order_ok ctx =
     (\<forall>xs. set (set_order ctx xs) = set xs \<and> (distinct xs \<longrightarrow> distinct (set_order ctx xs)))"

text \<open>Whether a result is the exception \<^verbatim>\<open>util.CommandError\<close>.\<close>

definition raises_command_error :: "error + 'a \<Rightarrow> bool" where
  "raises_command_error r = (case r of Inl (CommandError m) \<Rightarrow> True | _ \<Rightarrow> False)"

subsection \<open>Example data\<close>

definition example_opts :: opts where
  "example_opts =
     \<lparr>target_metadata = None, upgrade_token = ''upgrades'',
      downgrade_token = ''downgrades'', sqlalchemy_module_prefix = Some ''sa.'',
      alembic_module_prefix = Some ''op.''\<rparr>"

text \<open>A context on an empty database. Its type predicate compares the \<^verbatim>\<open>repr\<close> of the
  two types, its default predicate the quoted observed default with the rendered
  declared one; sets iterate in insertion order.\<close>

definition example_context :: autogen_context where
  "example_context =
     \<lparr>ctx_opts = example_opts, env_py_location = ''env.py'',
      context_compare_type = (\<lambda>cc c. ty_repr (cc_type cc) \<noteq> ty_repr (c_type c)),
      context_compare_server_default =
        (\<lambda>cc c r. map_option (\<lambda>s. sq @ s @ sq) (cc_default cc) \<noteq> r),
      get_table_names = [],
      get_columns = (\<lambda>t. []),
      reflecttable = (\<lambda>t. ([], [])),
      referred_tables = (\<lambda>t. []),
      compile_default = (\<lambda>e. case e of SqlExpr s \<Rightarrow> s),
      repr_str = (\<lambda>s. sq @ s @ sq),
      repr_default = (\<lambda>d. ''DefaultClause()''),
      set_order = (\<lambda>xs. xs)\<rparr>"

definition ex_varchar :: sqltype where
  "ex_varchar = SqlType ''sqlalchemy.types'' ''VARCHAR(length=50)'' False"

definition ex_text :: sqltype where
  "ex_text = SqlType ''sqlalchemy.types'' ''TEXT()'' False"

definition ex_nulltype :: sqltype where
  "ex_nulltype = SqlType ''sqlalchemy.types'' ''NullType()'' True"

definition ex_users :: table where
  "ex_users = Table ''users'' [Column ''email'' ex_varchar (Some False) None] []"

text \<open>The observed column \<^verbatim>\<open>users.email\<close>, nullable, and declared columns that
  differ from it in the nullable flag only, and in type and nullable flag.\<close>

definition ex_conn_email :: conn_col where
  "ex_conn_email = ConnCol ''email'' ex_varchar (Some True) None"

definition ex_meta_email :: column where
  "ex_meta_email = Column ''email'' ex_varchar (Some False) None"

definition ex_meta_email_text :: column where
  "ex_meta_email_text = Column ''email'' ex_text (Some False) None"

text \<open>An observed column whose type could not be determined, an observed column of
  unknown nullability, and a context whose type predicate always reports a change.\<close>

definition ex_conn_unknown :: conn_col where
  "ex_conn_unknown = ConnCol ''email'' ex_nulltype (Some True) None"

definition ex_conn_nullable_none :: conn_col where
  "ex_conn_nullable_none = ConnCol ''email'' ex_varchar None None"

definition ex_context_always :: autogen_context where
  "ex_context_always = example_context\<lparr>context_compare_type := (\<lambda>cc c. True)\<rparr>"

text \<open>The same column with the default \<^verbatim>\<open>'x'\<close> on both sides.\<close>

definition ex_conn_email_x :: conn_col where
  "ex_conn_email_x = ConnCol ''email'' ex_varchar (Some True) (Some ''x'')"

definition ex_meta_email_text_x :: column where
  "ex_meta_email_text_x =
     Column ''email'' ex_text (Some False) (Some (DefaultClause (ArgStr ''x'')))"

text \<open>The example context with the declared table \<^verbatim>\<open>users\<close>, on an empty database.\<close>

definition ex_run_context :: autogen_context where
  "ex_run_context =
     example_context\<lparr>ctx_opts := example_opts\<lparr>target_metadata := Some [ex_users]\<rparr>\<rparr>"

text \<open>A database that holds the table \<^verbatim>\<open>alembic_version\<close> only, and a declared table
  of that name.\<close>

definition ex_db_context :: autogen_context where
  "ex_db_context = example_context\<lparr>get_table_names := [''alembic_version'']\<rparr>"

definition ex_alembic_version :: table where
  "ex_alembic_version = Table ''alembic_version'' [] []"

text \<open>A context whose sets iterate by a hash slot, as hash tables do, and not
  alphabetically: \<^verbatim>\<open>a\<close>, \<^verbatim>\<open>c\<close>, \<^verbatim>\<open>b\<close>. Three declared tables of these names.\<close>

definition ex_slot :: "string \<Rightarrow> nat" where
  "ex_slot s = (if s = ''a'' then 0 else if s = ''c'' then 2 else if s = ''b'' then 3 else 4)"

definition ex_hash_context :: autogen_context where
  "ex_hash_context = example_context\<lparr>set_order := sort_key ex_slot\<rparr>"

definition ex_table_a :: table where
  "ex_table_a = Table ''a'' [] []"

definition ex_table_b :: table where
  "ex_table_b = Table ''b'' [] []"

definition ex_table_c :: table where
  "ex_table_c = Table ''c'' [] []"

section \<open>Properties\<close>

subsection \<open>Auxiliary facts\<close>

lemma bindE_eq_Inr: "bindE m f = Inr y \<longleftrightarrow> (\<exists>x. m = Inr x \<and> f x = Inr y)"
  by (cases m) auto

lemma bindE_eq_Inl: "bindE m f = Inl e \<longleftrightarrow> m = Inl e \<or> (\<exists>x. m = Inr x \<and> f x = Inl e)"
  by (cases m) auto

lemma compare_type_tags:
  "set (map m_tag (fst (compare_type tname cname cc mc ctx st))) \<subseteq>
   insert ''modify_type'' (set (map m_tag (fst st)))"
  by (auto simp: compare_type_def Let_def)

lemma compare_nullable_tags:
  "set (map m_tag (fst (compare_nullable tname cname cc n ctx st))) \<subseteq>
   insert ''modify_nullable'' (set (map m_tag (fst st)))"
  by (auto simp: compare_nullable_def Let_def)

lemma compare_server_default_tags:
  "set (map m_tag (fst (compare_server_default tname cname cc mc ctx st))) \<subseteq>
   insert ''modify_default'' (set (map m_tag (fst st)))"
  by (auto simp: compare_server_default_def Let_def)

lemma compare_type_skip:
  "ty_null_affinity (cc_type cc) \<or> ty_null_affinity (c_type mc) \<Longrightarrow>
   fst (compare_type tname cname cc mc ctx st) = fst st"
  by (auto simp: compare_type_def Let_def)

subsection \<open>Dispatch of the structural diffs\<close>

text \<open>
  Claim C2. For a diff \<^verbatim>\<open>add_table\<close>, \<^verbatim>\<open>remove_table\<close>, \<^verbatim>\<open>add_column\<close> or
  \<^verbatim>\<open>remove_column\<close>, the direction and the tag select the renderer by the four-way
  table: upgrade of an add diff and downgrade of a remove diff call the add renderer,
  downgrade of an add diff and upgrade of a remove diff call the drop renderer.
\<close>

theorem C2_adddrop_dispatch:
  "invoke_adddrop_command ''upgrade'' ''add_table'' (TableArgs t) ctx imps =
     add_table t ctx imps \<and>
   invoke_adddrop_command ''downgrade'' ''add_table'' (TableArgs t) ctx imps =
     Inr (drop_table t ctx, imps) \<and>
   invoke_adddrop_command ''upgrade'' ''remove_table'' (TableArgs t) ctx imps =
     Inr (drop_table t ctx, imps) \<and>
   invoke_adddrop_command ''downgrade'' ''remove_table'' (TableArgs t) ctx imps =
     add_table t ctx imps \<and>
   invoke_adddrop_command ''upgrade'' ''add_column'' (ColumnArgs tn c) ctx imps =
     add_column tn c ctx imps \<and>
   invoke_adddrop_command ''downgrade'' ''add_column'' (ColumnArgs tn c) ctx imps =
     Inr (drop_column tn c ctx, imps) \<and>
   invoke_adddrop_command ''upgrade'' ''remove_column'' (ColumnArgs tn c) ctx imps =
     Inr (drop_column tn c ctx, imps) \<and>
   invoke_adddrop_command ''downgrade'' ''remove_column'' (ColumnArgs tn c) ctx imps =
     add_column tn c ctx imps"
  by (simp add: invoke_adddrop_command_def commands_def)

theorem C2_adddrop_dispatch_witness:
  "invoke_adddrop_command ''upgrade'' ''add_table'' (TableArgs ex_users) example_context None =
     Inr (''op.create_table('' @ sq @ ''users'' @ sq @ '','' @ nl @
          ''sa.Column('' @ sq @ ''email'' @ sq @ '', sa.VARCHAR(length=50), nullable=False)'' @
          nl @ '')'', None) \<and>
   invoke_adddrop_command ''downgrade'' ''add_table'' (TableArgs ex_users) example_context None =
     Inr (''op.drop_table('' @ sq @ ''users'' @ sq @ '')'', None)"
  using C2_adddrop_dispatch [of ex_users example_context None]
  by (simp add: add_table_def drop_table_def render_column_def repr_type_def
        alembic_autogenerate_prefix_def sqlalchemy_autogenerate_prefix_def
        example_context_def example_opts_def ex_users_def ex_varchar_def
        List.map_filter_def)

subsection \<open>The attribute comparators\<close>

text \<open>
  Claim C3. If the type of the observed column or the type of the declared column has
  the affinity NullType, the type comparator appends no diff and logs one message,
  whatever the context's type predicate answers; and the group of the column holds no
  \<^verbatim>\<open>modify_type\<close> diff, whatever else differs.
\<close>

theorem C3_unresolved_type_no_modify_type:
  assumes "ty_null_affinity (cc_type conn_col) \<or> ty_null_affinity (c_type metadata_col)"
  shows "fst (compare_type tname cname conn_col metadata_col ctx st) = fst st \<and>
    (\<exists>msg. snd (compare_type tname cname conn_col metadata_col ctx st) = snd st @ [msg]) \<and>
    ''modify_type'' \<notin> set (map m_tag
        (fst (compare_attributes tname cname conn_col metadata_col ctx log)))"
proof -
  have a: "fst (compare_type tname cname conn_col metadata_col ctx st) = fst st"
    using assms by (rule compare_type_skip)
  have b: "\<exists>msg. snd (compare_type tname cname conn_col metadata_col ctx st) = snd st @ [msg]"
    using assms by (auto simp: compare_type_def Let_def)
  have "fst (compare_type tname cname conn_col metadata_col ctx ([], log)) = []"
    using compare_type_skip [OF assms, of tname cname ctx "([], log)"] by simp
  then have "set (map m_tag (fst (compare_attributes tname cname conn_col metadata_col ctx log)))
      \<subseteq> {''modify_default'', ''modify_nullable''}"
    unfolding compare_attributes_def
    using compare_server_default_tags [of tname cname conn_col metadata_col ctx
            "compare_nullable tname cname conn_col (c_nullable metadata_col) ctx
               (compare_type tname cname conn_col metadata_col ctx ([], log))"]
          compare_nullable_tags [of tname cname conn_col "c_nullable metadata_col" ctx
            "compare_type tname cname conn_col metadata_col ctx ([], log)"]
    by auto
  then have c: "''modify_type'' \<notin> set (map m_tag
        (fst (compare_attributes tname cname conn_col metadata_col ctx log)))"
    by auto
  from a b c show ?thesis by blast
qed

theorem C3_unresolved_type_no_modify_type_witness:
  "ty_null_affinity (cc_type ex_conn_unknown) \<and>
   context_compare_type ex_context_always ex_conn_unknown ex_meta_email_text \<and>
   compare_type ''users'' ''email'' ex_conn_unknown ex_meta_email_text ex_context_always
       ([], []) =
     ([], [''Couldn'' @ sq @ ''t determine database type for column '' @
           sq @ ''users.email'' @ sq]) \<and>
   map m_tag (fst (compare_attributes ''users'' ''email'' ex_conn_unknown ex_meta_email_text
                     ex_context_always [])) = [''modify_nullable'']"
proof -
  have h: "ty_null_affinity (cc_type ex_conn_unknown) \<or>
           ty_null_affinity (c_type ex_meta_email_text)"
    by (simp add: ex_conn_unknown_def ex_nulltype_def)
  have t: "context_compare_type ex_context_always ex_conn_unknown ex_meta_email_text"
    by (simp add: ex_context_always_def)
  have g: "map m_tag (fst (compare_attributes ''users'' ''email'' ex_conn_unknown
                            ex_meta_email_text ex_context_always [])) = [''modify_nullable'']"
    by (simp add: compare_attributes_def compare_type_def compare_nullable_def
          compare_server_default_def ex_conn_unknown_def ex_nulltype_def
          ex_meta_email_text_def ex_text_def)
  from C3_unresolved_type_no_modify_type [OF h, of "''users''" "''email''"
         ex_context_always "([], [])" "[]"]
  have "compare_type ''users'' ''email'' ex_conn_unknown ex_meta_email_text ex_context_always
          ([], []) =
        ([], [''Couldn'' @ sq @ ''t determine database type for column '' @
              sq @ ''users.email'' @ sq])"
    by (simp add: compare_type_def col_label_def ex_conn_unknown_def ex_nulltype_def)
  with h t g show ?thesis
    by (simp add: ex_conn_unknown_def ex_nulltype_def)
qed

text \<open>
  Claim C4. The group of a column holds a \<^verbatim>\<open>modify_nullable\<close> diff if and only if
  the observed nullable flag differs from the declared one, where None, True and False
  are three different values. The nullable comparator leaves its state alone when the
  flags are the same, and otherwise appends one diff that carries the observed type and
  the observed default as \<^verbatim>\<open>existing_type\<close> and \<^verbatim>\<open>existing_server_default\<close>.
\<close>

theorem C4_modify_nullable_iff:
  "(''modify_nullable'' \<in> set (map m_tag
        (fst (compare_attributes tname cname conn_col metadata_col ctx log)))
      \<longleftrightarrow> cc_nullable conn_col \<noteq> c_nullable metadata_col) \<and>
   (cc_nullable conn_col = n \<longrightarrow> compare_nullable tname cname conn_col n ctx st = st) \<and>
   (cc_nullable conn_col \<noteq> n \<longrightarrow>
      (\<exists>d. fst (compare_nullable tname cname conn_col n ctx st) = fst st @ [d] \<and>
           m_tag d = ''modify_nullable'' \<and> m_tname d = tname \<and> m_cname d = cname \<and>
           dict_get (m_kw d) ''existing_type'' = Some (PyType (cc_type conn_col)) \<and>
           dict_get (m_kw d) ''existing_server_default'' =
             Some (of_conn_default (cc_default conn_col)) \<and>
           m_old d = of_nullable (cc_nullable conn_col) \<and> m_new d = of_nullable n))"
proof -
  have a: "''modify_nullable'' \<in> set (map m_tag
        (fst (compare_attributes tname cname conn_col metadata_col ctx log)))
      \<longleftrightarrow> cc_nullable conn_col \<noteq> c_nullable metadata_col"
    by (auto simp: compare_attributes_def compare_server_default_def compare_nullable_def
          compare_type_def Let_def)
  have b: "cc_nullable conn_col = n \<longrightarrow> compare_nullable tname cname conn_col n ctx st = st"
    by (simp add: compare_nullable_def)
  have c: "cc_nullable conn_col \<noteq> n \<longrightarrow>
      (\<exists>d. fst (compare_nullable tname cname conn_col n ctx st) = fst st @ [d] \<and>
           m_tag d = ''modify_nullable'' \<and> m_tname d = tname \<and> m_cname d = cname \<and>
           dict_get (m_kw d) ''existing_type'' = Some (PyType (cc_type conn_col)) \<and>
           dict_get (m_kw d) ''existing_server_default'' =
             Some (of_conn_default (cc_default conn_col)) \<and>
           m_old d = of_nullable (cc_nullable conn_col) \<and> m_new d = of_nullable n)"
    by (simp add: compare_nullable_def dict_get_def)
  from a b c show ?thesis by blast
qed

theorem C4_modify_nullable_iff_witness:
  "cc_nullable ex_conn_nullable_none \<noteq> c_nullable ex_meta_email \<and>
   ''modify_nullable'' \<in> set (map m_tag
      (fst (compare_attributes ''users'' ''email'' ex_conn_nullable_none ex_meta_email
              example_context []))) \<and>
   cc_nullable ex_conn_email = Some True \<and>
   compare_nullable ''users'' ''email'' ex_conn_email (Some True) example_context ([], []) =
     ([], []) \<and>
   fst (compare_nullable ''users'' ''email'' ex_conn_nullable_none (Some False)
          example_context ([], [])) =
     [Modify ''modify_nullable'' ''users'' ''email''
        [(''existing_type'', PyType ex_varchar), (''existing_server_default'', PyNone)]
        PyNone (PyBool False)]"
proof -
  have h1: "cc_nullable ex_conn_nullable_none \<noteq> c_nullable ex_meta_email"
    by (simp add: ex_conn_nullable_none_def ex_meta_email_def)
  have h2: "cc_nullable ex_conn_email = Some True"
    by (simp add: ex_conn_email_def)
  have h3: "cc_nullable ex_conn_nullable_none \<noteq> Some False"
    by (simp add: ex_conn_nullable_none_def)
  note w1 = C4_modify_nullable_iff [of "''users''" "''email''" ex_conn_nullable_none
              ex_meta_email example_context "[]" "Some False" "([], [])"]
  note w2 = C4_modify_nullable_iff [of "''users''" "''email''" ex_conn_email
              ex_meta_email example_context "[]" "Some True" "([], [])"]
  from w1 h1 have m: "''modify_nullable'' \<in> set (map m_tag
      (fst (compare_attributes ''users'' ''email'' ex_conn_nullable_none ex_meta_email
              example_context [])))"
    by blast
  from w2 h2 have s: "compare_nullable ''users'' ''email'' ex_conn_email (Some True)
      example_context ([], []) = ([], [])"
    by blast
  from w1 h3 obtain d where
    d: "fst (compare_nullable ''users'' ''email'' ex_conn_nullable_none (Some False)
          example_context ([], [])) = [d]"
    by auto
  have e: "fst (compare_nullable ''users'' ''email'' ex_conn_nullable_none (Some False)
          example_context ([], [])) =
     [Modify ''modify_nullable'' ''users'' ''email''
        [(''existing_type'', PyType ex_varchar), (''existing_server_default'', PyNone)]
        PyNone (PyBool False)]"
    by (simp add: compare_nullable_def ex_conn_nullable_none_def)
  from h1 m h2 s e show ?thesis by blast
qed

text \<open>
  Claim C5. When neither the observed nor the declared column has a default, the default
  comparator returns its state unchanged whatever the context's default predicate is
  (the predicate is not consulted). Whenever it does append a diff, one side has a
  default, the predicate has reported a difference for the rendered declared default,
  and the appended diff is one \<^verbatim>\<open>modify_default\<close>.
\<close>

theorem C5_default_short_circuit:
  "(cc_default conn_col = None \<and> c_server_default metadata_col = None \<longrightarrow>
      compare_server_default tname cname conn_col metadata_col
        (ctx\<lparr>context_compare_server_default := p\<rparr>) st = st) \<and>
   (fst (compare_server_default tname cname conn_col metadata_col ctx st) \<noteq> fst st \<longrightarrow>
      (cc_default conn_col \<noteq> None \<or> c_server_default metadata_col \<noteq> None) \<and>
      context_compare_server_default ctx conn_col metadata_col
        (render_server_default (of_server_default (c_server_default metadata_col)) ctx) \<and>
      (\<exists>d. fst (compare_server_default tname cname conn_col metadata_col ctx st) = fst st @ [d] \<and>
           m_tag d = ''modify_default''))"
  by (auto simp: compare_server_default_def Let_def)

theorem C5_default_short_circuit_witness:
  "cc_default ex_conn_email = None \<and> c_server_default ex_meta_email = None \<and>
   compare_server_default ''users'' ''email'' ex_conn_email ex_meta_email
     (example_context\<lparr>context_compare_server_default := (\<lambda>cc c r. True)\<rparr>) ([], []) = ([], []) \<and>
   fst (compare_server_default ''users'' ''email'' ex_conn_email ex_meta_email_text_x
          example_context ([], [])) \<noteq> fst ([], []) \<and>
   c_server_default ex_meta_email_text_x \<noteq> None \<and>
   context_compare_server_default example_context ex_conn_email ex_meta_email_text_x
     (render_server_default (of_server_default (c_server_default ex_meta_email_text_x))
        example_context)"
proof -
  have h1: "cc_default ex_conn_email = None \<and> c_server_default ex_meta_email = None"
    by (simp add: ex_conn_email_def ex_meta_email_def)
  have h2: "fst (compare_server_default ''users'' ''email'' ex_conn_email ex_meta_email_text_x
          example_context ([], [])) \<noteq> fst ([], [])"
    by (simp add: compare_server_default_def render_server_default_def ex_conn_email_def
          ex_meta_email_text_x_def example_context_def)
  have h3: "c_server_default ex_meta_email_text_x \<noteq> None"
    by (simp add: ex_meta_email_text_x_def)
  note w1 = C5_default_short_circuit [where conn_col = ex_conn_email
              and metadata_col = ex_meta_email and tname = "''users''" and cname = "''email''"
              and ctx = example_context and p = "\<lambda>cc c r. True" and st = "([], [])"]
  note w2 = C5_default_short_circuit [where conn_col = ex_conn_email
              and metadata_col = ex_meta_email_text_x and tname = "''users''"
              and cname = "''email''" and ctx = example_context and st = "([], [])"]
  from w1 h1 have a: "compare_server_default ''users'' ''email'' ex_conn_email ex_meta_email
     (example_context\<lparr>context_compare_server_default := (\<lambda>cc c r. True)\<rparr>) ([], []) = ([], [])"
    by blast
  from w2 h2 have b: "context_compare_server_default example_context ex_conn_email
     ex_meta_email_text_x
     (render_server_default (of_server_default (c_server_default ex_meta_email_text_x))
        example_context)"
    by blast
  from h1 a h2 h3 b show ?thesis by blast
qed

subsection \<open>Merging a group into one call\<close>

lemma compare_attributes_group:
  "fst (compare_attributes tname cname cc mc ctx log) =
     (if \<not> ty_null_affinity (cc_type cc) \<and> \<not> ty_null_affinity (c_type mc) \<and>
         context_compare_type ctx cc mc
      then [Modify ''modify_type'' tname cname
              [(''existing_nullable'', of_nullable (cc_nullable cc)),
               (''existing_server_default'', of_conn_default (cc_default cc))]
              (PyType (cc_type cc)) (PyType (c_type mc))]
      else []) @
     (if cc_nullable cc \<noteq> c_nullable mc
      then [Modify ''modify_nullable'' tname cname
              [(''existing_type'', PyType (cc_type cc)),
               (''existing_server_default'', of_conn_default (cc_default cc))]
              (of_nullable (cc_nullable cc)) (of_nullable (c_nullable mc))]
      else []) @
     (if (cc_default cc \<noteq> None \<or> c_server_default mc \<noteq> None) \<and>
         context_compare_server_default ctx cc mc
           (render_server_default (of_server_default (c_server_default mc)) ctx)
      then [Modify ''modify_default'' tname cname
              [(''existing_nullable'', of_nullable (cc_nullable cc)),
               (''existing_type'', PyType (cc_type cc))]
              (of_conn_default (cc_default cc)) (of_server_default (c_server_default mc))]
      else [])"
  by (simp add: compare_attributes_def compare_type_def compare_nullable_def
        compare_server_default_def Let_def)

lemma group_type_nullable:
  assumes "map m_tag (fst (compare_attributes tname cname cc mc ctx log)) =
           [''modify_type'', ''modify_nullable'']"
  shows "fst (compare_attributes tname cname cc mc ctx log) =
     [Modify ''modify_type'' tname cname
        [(''existing_nullable'', of_nullable (cc_nullable cc)),
         (''existing_server_default'', of_conn_default (cc_default cc))]
        (PyType (cc_type cc)) (PyType (c_type mc)),
      Modify ''modify_nullable'' tname cname
        [(''existing_type'', PyType (cc_type cc)),
         (''existing_server_default'', of_conn_default (cc_default cc))]
        (of_nullable (cc_nullable cc)) (of_nullable (c_nullable mc))]"
  using assms unfolding compare_attributes_group
  by (auto split: if_splits)

lemma group_nullable_only:
  assumes "map m_tag (fst (compare_attributes tname cname cc mc ctx log)) =
           [''modify_nullable'']"
  shows "fst (compare_attributes tname cname cc mc ctx log) =
     [Modify ''modify_nullable'' tname cname
        [(''existing_type'', PyType (cc_type cc)),
         (''existing_server_default'', of_conn_default (cc_default cc))]
        (of_nullable (cc_nullable cc)) (of_nullable (c_nullable mc))]"
  using assms unfolding compare_attributes_group
  by (auto split: if_splits)

lemma kw_type_nullable:
  "\<exists>kw. modify_kw updown
     [Modify ''modify_type'' tname cname
        [(''existing_nullable'', en), (''existing_server_default'', esd)] ot nt,
      Modify ''modify_nullable'' tname cname
        [(''existing_type'', et), (''existing_server_default'', esd)] on nn] = Inr kw \<and>
     kw ''type_'' = Some (if updown = ''upgrade'' then nt else ot) \<and>
     kw ''existing_type'' = Some (if updown = ''upgrade'' then ot else nt) \<and>
     kw ''nullable'' = Some (if updown = ''upgrade'' then nn else on) \<and>
     kw ''existing_nullable'' = None \<and>
     kw ''server_default'' = None \<and>
     kw ''existing_server_default'' = Some esd"
  by (simp add: modify_kw_def merge_diff_def arg_struct_def setdefault_def dict_get_def)

lemma kw_nullable_only:
  "\<exists>kw. modify_kw updown
     [Modify ''modify_nullable'' tname cname
        [(''existing_type'', et), (''existing_server_default'', esd)] on nn] = Inr kw \<and>
     kw ''type_'' = None \<and>
     kw ''existing_type'' = Some et \<and>
     kw ''nullable'' = Some (if updown = ''upgrade'' then nn else on) \<and>
     kw ''existing_nullable'' = None \<and>
     kw ''server_default'' = None \<and>
     kw ''existing_server_default'' = Some esd"
  by (simp add: modify_kw_def merge_diff_def arg_struct_def setdefault_def dict_get_def)


lemma modify_col_fields_keys:
  "modify_col_fields ctx sd nt n et en esd imps = Inr (flds, imps') \<Longrightarrow>
   map fst flds =
     [''existing_type''] @
     (if sd \<noteq> PyBool False then [''server_default''] else []) @
     (if nt \<noteq> PyNone then [''type_''] else []) @
     (if n \<noteq> PyNone then [''nullable''] else []) @
     (if en \<noteq> PyNone then [''existing_nullable''] else []) @
     (if truthy esd then [''existing_server_default''] else [])"
  by (auto simp: modify_col_fields_def Let_def bindE_eq_Inr split: if_splits)

lemma modify_col_fields_existing_type:
  "modify_col_fields ctx sd nt n et en esd imps = Inr (flds, imps') \<Longrightarrow>
   \<exists>r rest. repr_type (sqlalchemy_autogenerate_prefix ctx) et ctx imps = Inr r \<and>
     flds = (''existing_type'', fst r) # rest"
  by (auto simp: modify_col_fields_def Let_def bindE_eq_Inr split: if_splits)

lemma modify_col_text:
  "modify_col tname cname ctx sd nt n et en esd imps = Inr (text, imps') \<Longrightarrow>
   \<exists>r rest. repr_type (sqlalchemy_autogenerate_prefix ctx) et ctx imps = Inr r \<and>
     text = alembic_autogenerate_prefix ctx @ ''alter_column('' @ repr_str ctx tname @ '', '' @
            repr_str ctx cname @ '', '' @ nl @ replicate 11 (CHR '' '') @
            ''existing_type='' @ fst r @ rest"
proof -
  assume a: "modify_col tname cname ctx sd nt n et en esd imps = Inr (text, imps')"
  then obtain flds i where f: "modify_col_fields ctx sd nt n et en esd imps = Inr (flds, i)"
    and t: "text = alembic_autogenerate_prefix ctx @ ''alter_column('' @ repr_str ctx tname @
                 '', '' @ repr_str ctx cname @
                 concat (map (\<lambda>kv. '', '' @ nl @ replicate 11 (CHR '' '') @
                                    fst kv @ ''='' @ snd kv) flds) @ '')''"
    by (auto simp: modify_col_def bindE_eq_Inr)
  from modify_col_fields_existing_type [OF f] obtain r rest where
    r: "repr_type (sqlalchemy_autogenerate_prefix ctx) et ctx imps = Inr r"
    and fs: "flds = (''existing_type'', fst r) # rest" by blast
  show ?thesis
    using r t fs by auto
qed

lemma merge_diff_keeps:
  "merge_diff updown d kw = Inr kw' \<Longrightarrow> kw k \<noteq> None \<Longrightarrow> kw' k \<noteq> None"
  by (auto simp: merge_diff_def setdefault_def Let_def split: option.splits if_splits)

lemma merge_diff_new:
  "merge_diff updown d kw = Inr kw' \<Longrightarrow> arg_struct (m_tag d) = Some (old_kw, new_kw) \<Longrightarrow>
   kw' new_kw \<noteq> None"
  by (auto simp: merge_diff_def Let_def split: option.splits if_splits)

lemma foldE_merge_keeps:
  "foldE (merge_diff updown) args kw = Inr kw' \<Longrightarrow> kw k \<noteq> None \<Longrightarrow> kw' k \<noteq> None"
proof (induction args arbitrary: kw)
  case Nil
  then show ?case by simp
next
  case (Cons d ds)
  then show ?case
    by (auto split: sum.splits dest: merge_diff_keeps)
qed

lemma foldE_merge_new:
  "foldE (merge_diff updown) args kw = Inr kw' \<Longrightarrow> d \<in> set args \<Longrightarrow>
   arg_struct (m_tag d) = Some (old_kw, new_kw) \<Longrightarrow> kw' new_kw \<noteq> None"
proof (induction args arbitrary: kw)
  case Nil
  then show ?case by simp
next
  case (Cons a ds)
  from Cons.prems(1) obtain kw1 where
    m: "merge_diff updown a kw = Inr kw1" and f: "foldE (merge_diff updown) ds kw1 = Inr kw'"
    by (auto split: sum.splits)
  show ?case
  proof (cases "d = a")
    case True
    with m Cons.prems(3) have "kw1 new_kw \<noteq> None" by (auto dest: merge_diff_new)
    with f show ?thesis by (rule foldE_merge_keeps)
  next
    case False
    with Cons.prems(2) have "d \<in> set ds" by simp
    with Cons.IH [OF f] Cons.prems(3) show ?thesis by blast
  qed
qed

lemma modify_kw_superseded:
  assumes "modify_kw updown args = Inr kw"
  shows "(''modify_nullable'' \<in> set (map m_tag args) \<longrightarrow> kw ''existing_nullable'' = None) \<and>
         (''modify_default'' \<in> set (map m_tag args) \<longrightarrow> kw ''existing_server_default'' = None)"
proof -
  from assms obtain kw0 where
    f: "foldE (merge_diff updown) args Map.empty = Inr kw0" and
    k: "kw = (let kw1 = (if kw0 ''nullable'' \<noteq> None then kw0(''existing_nullable'' := None) else kw0);
           kw2 = (if kw1 ''server_default'' \<noteq> None
                  then kw1(''existing_server_default'' := None) else kw1)
       in kw2)"
    by (auto simp: modify_kw_def bindE_eq_Inr Let_def)
  have a: "''modify_nullable'' \<in> set (map m_tag args) \<longrightarrow> kw0 ''nullable'' \<noteq> None"
  proof
    assume "''modify_nullable'' \<in> set (map m_tag args)"
    then obtain d where "d \<in> set args" "m_tag d = ''modify_nullable''" by auto
    then show "kw0 ''nullable'' \<noteq> None"
      using foldE_merge_new [OF f, of d "''existing_nullable''" "''nullable''"]
      by (simp add: arg_struct_def)
  qed
  have b: "''modify_default'' \<in> set (map m_tag args) \<longrightarrow> kw0 ''server_default'' \<noteq> None"
  proof
    assume "''modify_default'' \<in> set (map m_tag args)"
    then obtain d where "d \<in> set args" "m_tag d = ''modify_default''" by auto
    then show "kw0 ''server_default'' \<noteq> None"
      using foldE_merge_new [OF f, of d "''existing_server_default''" "''server_default''"]
      by (simp add: arg_struct_def)
  qed
  from a b k show ?thesis by (auto simp: Let_def)
qed

lemma modify_call_fields_superseded:
  assumes "modify_call_fields updown args ctx imps = Inr (flds, imps')"
  shows "(''modify_nullable'' \<in> set (map m_tag args) \<longrightarrow>
            ''existing_nullable'' \<notin> set (map fst flds)) \<and>
         (''modify_default'' \<in> set (map m_tag args) \<longrightarrow>
            ''existing_server_default'' \<notin> set (map fst flds))"
proof -
  from assms obtain kw where k: "modify_kw updown args = Inr kw" and
    m: "modify_col_fields ctx
              (kwarg kw ''server_default'' (PyBool False))
              (kwarg kw ''type_'' PyNone)
              (kwarg kw ''nullable'' PyNone)
              (kwarg kw ''existing_type'' PyNone)
              (kwarg kw ''existing_nullable'' PyNone)
              (kwarg kw ''existing_server_default'' (PyBool False))
              imps = Inr (flds, imps')"
    by (auto simp: modify_call_fields_def bindE_eq_Inr split: list.splits)
  note s = modify_kw_superseded [OF k]
  note f = modify_col_fields_keys [OF m]
  show ?thesis
  proof (intro conjI impI)
    assume "''modify_nullable'' \<in> set (map m_tag args)"
    with s have "kwarg kw ''existing_nullable'' PyNone = PyNone" by (simp add: kwarg_def)
    with f show "''existing_nullable'' \<notin> set (map fst flds)" by simp
  next
    assume "''modify_default'' \<in> set (map m_tag args)"
    with s have "kwarg kw ''existing_server_default'' (PyBool False) = PyBool False"
      by (simp add: kwarg_def)
    with f show "''existing_server_default'' \<notin> set (map fst flds)" by simp
  qed
qed


lemma fields_type_nullable:
  assumes t: "map m_tag (fst (compare_attributes tname cname cc mc ctx log)) =
              [''modify_type'', ''modify_nullable'']"
    and f: "modify_call_fields updown (fst (compare_attributes tname cname cc mc ctx log))
              ctx imps = Inr (flds, imps')"
  shows "map fst flds =
      [''existing_type'', ''type_''] @
      (if (if updown = ''upgrade'' then c_nullable mc else cc_nullable cc) \<noteq> None
       then [''nullable''] else []) @
      (if truthy (of_conn_default (cc_default cc)) then [''existing_server_default''] else [])"
    and "\<exists>kw. modify_kw updown (fst (compare_attributes tname cname cc mc ctx log)) = Inr kw \<and>
           kw ''existing_type'' =
             Some (PyType (if updown = ''upgrade'' then cc_type cc else c_type mc))"
proof -
  note g = group_type_nullable [OF t]
  obtain kw where k: "modify_kw updown (fst (compare_attributes tname cname cc mc ctx log)) = Inr kw"
    and v: "kw ''type_'' = Some (if updown = ''upgrade'' then PyType (c_type mc) else PyType (cc_type cc))"
      "kw ''existing_type'' = Some (if updown = ''upgrade'' then PyType (cc_type cc) else PyType (c_type mc))"
      "kw ''nullable'' = Some (if updown = ''upgrade'' then of_nullable (c_nullable mc)
                               else of_nullable (cc_nullable cc))"
      "kw ''existing_nullable'' = None"
      "kw ''server_default'' = None"
      "kw ''existing_server_default'' = Some (of_conn_default (cc_default cc))"
    unfolding g
    using kw_type_nullable [of updown tname cname "of_nullable (cc_nullable cc)"
            "of_conn_default (cc_default cc)" "PyType (cc_type cc)" "PyType (c_type mc)"
            "PyType (cc_type cc)" "of_nullable (cc_nullable cc)" "of_nullable (c_nullable mc)"]
    by auto
  from v(2) k show "\<exists>kw. modify_kw updown (fst (compare_attributes tname cname cc mc ctx log)) = Inr kw \<and>
           kw ''existing_type'' =
             Some (PyType (if updown = ''upgrade'' then cc_type cc else c_type mc))"
    by auto
  from f k have m: "modify_col_fields ctx
              (kwarg kw ''server_default'' (PyBool False))
              (kwarg kw ''type_'' PyNone)
              (kwarg kw ''nullable'' PyNone)
              (kwarg kw ''existing_type'' PyNone)
              (kwarg kw ''existing_nullable'' PyNone)
              (kwarg kw ''existing_server_default'' (PyBool False))
              imps = Inr (flds, imps')"
    by (auto simp: modify_call_fields_def g)
  have n: "(of_nullable x \<noteq> PyNone) = (x \<noteq> None)" for x
    by (cases x) auto
  from modify_col_fields_keys [OF m] v n
  show "map fst flds =
      [''existing_type'', ''type_''] @
      (if (if updown = ''upgrade'' then c_nullable mc else cc_nullable cc) \<noteq> None
       then [''nullable''] else []) @
      (if truthy (of_conn_default (cc_default cc)) then [''existing_server_default''] else [])"
    by (auto simp: kwarg_def)
qed

text \<open>
  Claim C1, as amended. For a group in which the comparators found a change of type and
  of the nullable flag and none of the default, the rendered call has the fields
  \<^verbatim>\<open>existing_type\<close> and \<^verbatim>\<open>type_\<close>, the field \<^verbatim>\<open>nullable\<close> unless the new flag is None,
  no \<^verbatim>\<open>existing_nullable\<close> and no \<^verbatim>\<open>server_default\<close>, and the field
  \<^verbatim>\<open>existing_server_default\<close> exactly when the observed column has a non-empty default;
  \<^verbatim>\<open>existing_type\<close> is a type (the observed one on upgrade, the declared one on
  downgrade). For every group, a \<^verbatim>\<open>modify_nullable\<close> diff in it removes
  \<^verbatim>\<open>existing_nullable\<close> from the merged keyword arguments and from the rendered call,
  and a \<^verbatim>\<open>modify_default\<close> diff removes \<^verbatim>\<open>existing_server_default\<close>.
\<close>

theorem C1_composite_merge:
  "(map m_tag (fst (compare_attributes tname cname conn_col metadata_col ctx log)) =
      [''modify_type'', ''modify_nullable''] \<and>
    modify_call_fields updown (fst (compare_attributes tname cname conn_col metadata_col ctx log))
      ctx imps = Inr (flds, imps') \<longrightarrow>
      map fst flds =
        [''existing_type'', ''type_''] @
        (if (if updown = ''upgrade'' then c_nullable metadata_col else cc_nullable conn_col)
              \<noteq> None
         then [''nullable''] else []) @
        (if truthy (of_conn_default (cc_default conn_col))
         then [''existing_server_default''] else []) \<and>
      (\<exists>kw. modify_kw updown
               (fst (compare_attributes tname cname conn_col metadata_col ctx log)) = Inr kw \<and>
            kw ''existing_type'' =
              Some (PyType (if updown = ''upgrade'' then cc_type conn_col
                            else c_type metadata_col)))) \<and>
   (modify_kw updown args = Inr kw1 \<longrightarrow>
      (''modify_nullable'' \<in> set (map m_tag args) \<longrightarrow> kw1 ''existing_nullable'' = None) \<and>
      (''modify_default'' \<in> set (map m_tag args) \<longrightarrow>
         kw1 ''existing_server_default'' = None)) \<and>
   (modify_call_fields updown args ctx imps = Inr (flds1, imps1) \<longrightarrow>
      (''modify_nullable'' \<in> set (map m_tag args) \<longrightarrow>
         ''existing_nullable'' \<notin> set (map fst flds1)) \<and>
      (''modify_default'' \<in> set (map m_tag args) \<longrightarrow>
         ''existing_server_default'' \<notin> set (map fst flds1)))"
  (is "?A \<and> ?B \<and> ?C")
proof -
  have a: ?A
  proof (intro impI, elim conjE)
    assume t: "map m_tag (fst (compare_attributes tname cname conn_col metadata_col ctx log)) =
      [''modify_type'', ''modify_nullable'']"
      and f: "modify_call_fields updown
        (fst (compare_attributes tname cname conn_col metadata_col ctx log)) ctx imps =
        Inr (flds, imps')"
    from fields_type_nullable(1) [OF t f] fields_type_nullable(2) [OF t f]
    show "map fst flds =
        [''existing_type'', ''type_''] @
        (if (if updown = ''upgrade'' then c_nullable metadata_col else cc_nullable conn_col)
              \<noteq> None
         then [''nullable''] else []) @
        (if truthy (of_conn_default (cc_default conn_col))
         then [''existing_server_default''] else []) \<and>
      (\<exists>kw. modify_kw updown
               (fst (compare_attributes tname cname conn_col metadata_col ctx log)) = Inr kw \<and>
            kw ''existing_type'' =
              Some (PyType (if updown = ''upgrade'' then cc_type conn_col
                            else c_type metadata_col)))"
      by (rule conjI)
  qed
  have b: ?B
    using modify_kw_superseded [of updown args kw1] by (rule impI)
  have c: ?C
    using modify_call_fields_superseded [of updown args ctx imps flds1 imps1] by (rule impI)
  from a b c show ?thesis by (intro conjI)
qed


theorem C1_composite_merge_witness:
  "map m_tag (fst (compare_attributes ''users'' ''email'' ex_conn_email ex_meta_email_text
                     example_context [])) = [''modify_type'', ''modify_nullable''] \<and>
   modify_call_fields ''upgrade''
     (fst (compare_attributes ''users'' ''email'' ex_conn_email ex_meta_email_text
             example_context [])) example_context None =
     Inr ([(''existing_type'', ''sa.VARCHAR(length=50)''), (''type_'', ''sa.TEXT()''),
           (''nullable'', ''False'')], None) \<and>
   (\<exists>kw. modify_kw ''upgrade''
           (fst (compare_attributes ''users'' ''email'' ex_conn_email ex_meta_email_text
                   example_context [])) = Inr kw \<and>
         kw ''existing_type'' = Some (PyType ex_varchar) \<and>
         kw ''existing_nullable'' = None) \<and>
   map m_tag (fst (compare_attributes ''users'' ''email'' ex_conn_email ex_meta_email_text_x
                     example_context [])) =
     [''modify_type'', ''modify_nullable'', ''modify_default''] \<and>
   modify_call_fields ''upgrade''
     (fst (compare_attributes ''users'' ''email'' ex_conn_email ex_meta_email_text_x
             example_context [])) example_context None =
     Inr ([(''existing_type'', ''sa.VARCHAR(length=50)''),
           (''server_default'', sq @ ''x'' @ sq), (''type_'', ''sa.TEXT()''),
           (''nullable'', ''False'')], None) \<and>
   (\<exists>kw. modify_kw ''upgrade''
           (fst (compare_attributes ''users'' ''email'' ex_conn_email ex_meta_email_text_x
                   example_context [])) = Inr kw \<and>
         kw ''existing_nullable'' = None \<and> kw ''existing_server_default'' = None)"
  (is "?T1 \<and> ?F1 \<and> ?K1 \<and> ?T2 \<and> ?F2 \<and> ?K2")
proof -
  let ?G1 = "fst (compare_attributes ''users'' ''email'' ex_conn_email ex_meta_email_text
                    example_context [])"
  let ?G2 = "fst (compare_attributes ''users'' ''email'' ex_conn_email ex_meta_email_text_x
                    example_context [])"
  have g1: "?G1 =
     [Modify ''modify_type'' ''users'' ''email''
        [(''existing_nullable'', PyBool True), (''existing_server_default'', PyNone)]
        (PyType ex_varchar) (PyType ex_text),
      Modify ''modify_nullable'' ''users'' ''email''
        [(''existing_type'', PyType ex_varchar), (''existing_server_default'', PyNone)]
        (PyBool True) (PyBool False)]"
    by (simp add: compare_attributes_group ex_conn_email_def ex_meta_email_text_def
          example_context_def ex_varchar_def ex_text_def)
  have g2: "?G2 =
     [Modify ''modify_type'' ''users'' ''email''
        [(''existing_nullable'', PyBool True), (''existing_server_default'', PyNone)]
        (PyType ex_varchar) (PyType ex_text),
      Modify ''modify_nullable'' ''users'' ''email''
        [(''existing_type'', PyType ex_varchar), (''existing_server_default'', PyNone)]
        (PyBool True) (PyBool False),
      Modify ''modify_default'' ''users'' ''email''
        [(''existing_nullable'', PyBool True), (''existing_type'', PyType ex_varchar)]
        PyNone (PyDefault (DefaultClause (ArgStr ''x'')))]"
    by (simp add: compare_attributes_group ex_conn_email_def ex_meta_email_text_x_def
          example_context_def ex_varchar_def ex_text_def render_server_default_def)
  have t1: ?T1 by (simp add: g1)
  have t2: ?T2 by (simp add: g2)
  have f1: ?F1
    unfolding g1
    by (simp add: modify_call_fields_def modify_kw_def merge_diff_def arg_struct_def
          setdefault_def dict_get_def kwarg_def modify_col_fields_def repr_type_def
          sqlalchemy_autogenerate_prefix_def example_context_def example_opts_def
          ex_varchar_def ex_text_def)
  have f2: ?F2
    unfolding g2
    by (simp add: modify_call_fields_def modify_kw_def merge_diff_def arg_struct_def
          setdefault_def dict_get_def kwarg_def modify_col_fields_def repr_type_def
          sqlalchemy_autogenerate_prefix_def example_context_def example_opts_def
          ex_varchar_def ex_text_def render_server_default_def strip_quotes_def sq_def)
  note w1 = C1_composite_merge [where tname = "''users''" and cname = "''email''"
      and conn_col = ex_conn_email and metadata_col = ex_meta_email_text
      and ctx = example_context and log = "[]" and updown = "''upgrade''" and imps = None
      and imps' = None
      and flds = "[(''existing_type'', ''sa.VARCHAR(length=50)''), (''type_'', ''sa.TEXT()''),
                   (''nullable'', ''False'')]"
      and args = ?G1]
  note w2 = C1_composite_merge [where updown = "''upgrade''" and args = ?G2]
  have "\<exists>kw. modify_kw ''upgrade'' ?G1 = Inr kw \<and>
          kw ''existing_type'' = Some (PyType (cc_type ex_conn_email))"
    using w1 [THEN conjunct1] t1 f1 by simp
  then obtain kw where k: "modify_kw ''upgrade'' ?G1 = Inr kw"
    and e: "kw ''existing_type'' = Some (PyType (cc_type ex_conn_email))"
    by blast
  have "kw ''existing_nullable'' = None"
    using w1 [THEN conjunct2, THEN conjunct1, of kw] k t1 by simp
  with k e have k1: ?K1 by (auto simp: ex_conn_email_def)
  obtain kw2 where k2: "modify_kw ''upgrade'' ?G2 = Inr kw2"
    unfolding g2
    by (simp add: modify_kw_def merge_diff_def arg_struct_def setdefault_def dict_get_def)
  have "kw2 ''existing_nullable'' = None \<and> kw2 ''existing_server_default'' = None"
    using w2 [THEN conjunct2, THEN conjunct1, of kw2] k2 t2 by simp
  with k2 have k2': ?K2 by blast
  from t1 f1 k1 t2 f2 k2' show ?thesis by (intro conjI)
qed

text \<open>The claim as it was stated fails where the unchanged default is present: the call
  then carries \<^verbatim>\<open>existing_server_default\<close>.\<close>

theorem C1_counterexample:
  "map m_tag (fst (compare_attributes ''users'' ''email'' ex_conn_email_x ex_meta_email_text_x
                     example_context [])) = [''modify_type'', ''modify_nullable''] \<and>
   modify_call_fields ''upgrade''
     (fst (compare_attributes ''users'' ''email'' ex_conn_email_x ex_meta_email_text_x
             example_context [])) example_context None =
     Inr ([(''existing_type'', ''sa.VARCHAR(length=50)''), (''type_'', ''sa.TEXT()''),
           (''nullable'', ''False''), (''existing_server_default'', sq @ ''x'' @ sq)], None)"
proof -
  have g: "fst (compare_attributes ''users'' ''email'' ex_conn_email_x ex_meta_email_text_x
             example_context []) =
     [Modify ''modify_type'' ''users'' ''email''
        [(''existing_nullable'', PyBool True), (''existing_server_default'', PyStr ''x'')]
        (PyType ex_varchar) (PyType ex_text),
      Modify ''modify_nullable'' ''users'' ''email''
        [(''existing_type'', PyType ex_varchar), (''existing_server_default'', PyStr ''x'')]
        (PyBool True) (PyBool False)]"
    by (simp add: compare_attributes_group ex_conn_email_x_def ex_meta_email_text_x_def
          example_context_def ex_varchar_def ex_text_def render_server_default_def
          strip_quotes_def sq_def)
  obtain kw where k: "modify_kw ''upgrade''
     [Modify ''modify_type'' ''users'' ''email''
        [(''existing_nullable'', PyBool True), (''existing_server_default'', PyStr ''x'')]
        (PyType ex_varchar) (PyType ex_text),
      Modify ''modify_nullable'' ''users'' ''email''
        [(''existing_type'', PyType ex_varchar), (''existing_server_default'', PyStr ''x'')]
        (PyBool True) (PyBool False)] = Inr kw"
    and v: "kw ''type_'' = Some (PyType ex_text)" "kw ''existing_type'' = Some (PyType ex_varchar)"
      "kw ''nullable'' = Some (PyBool False)" "kw ''existing_nullable'' = None"
      "kw ''server_default'' = None" "kw ''existing_server_default'' = Some (PyStr ''x'')"
    using kw_type_nullable [of "''upgrade''" "''users''" "''email''" "PyBool True" "PyStr ''x''"
            "PyType ex_varchar" "PyType ex_text" "PyType ex_varchar" "PyBool True" "PyBool False"]
    by auto
  have f: "modify_col_fields example_context (PyBool False) (PyType ex_text) (PyBool False)
             (PyType ex_varchar) PyNone (PyStr ''x'') None =
     Inr ([(''existing_type'', ''sa.VARCHAR(length=50)''), (''type_'', ''sa.TEXT()''),
           (''nullable'', ''False''), (''existing_server_default'', sq @ ''x'' @ sq)], None)"
    by (simp add: modify_col_fields_def repr_type_def sqlalchemy_autogenerate_prefix_def
          example_context_def example_opts_def ex_varchar_def ex_text_def
          render_server_default_def strip_quotes_def sq_def)
  show ?thesis
    unfolding g using k v f by (simp add: modify_call_fields_def kwarg_def)
qed

lemma invoke_modify_command_text:
  assumes "invoke_modify_command updown args ctx imps = Inr (rendered, imps')"
  shows "\<exists>d0 ds kw r rest. args = d0 # ds \<and> modify_kw updown args = Inr kw \<and>
     repr_type (sqlalchemy_autogenerate_prefix ctx) (kwarg kw ''existing_type'' PyNone) ctx imps
       = Inr r \<and>
     rendered = alembic_autogenerate_prefix ctx @ ''alter_column('' @ repr_str ctx (m_tname d0) @
            '', '' @ repr_str ctx (m_cname d0) @ '', '' @ nl @ replicate 11 (CHR '' '') @
            ''existing_type='' @ fst r @ rest"
proof -
  from assms obtain d0 ds where a: "args = d0 # ds"
    by (cases args) (auto simp: invoke_modify_command_def)
  from assms a obtain kw where k: "modify_kw updown args = Inr kw"
    and m: "modify_col (m_tname d0) (m_cname d0) ctx
              (kwarg kw ''server_default'' (PyBool False))
              (kwarg kw ''type_'' PyNone)
              (kwarg kw ''nullable'' PyNone)
              (kwarg kw ''existing_type'' PyNone)
              (kwarg kw ''existing_nullable'' PyNone)
              (kwarg kw ''existing_server_default'' (PyBool False))
              imps = Inr (rendered, imps')"
    by (auto simp: invoke_modify_command_def bindE_eq_Inr)
  from modify_col_text [OF m] a k show ?thesis by blast
qed

lemma invoke_nullable_only:
  assumes t: "map m_tag (fst (compare_attributes tname cname cc mc ctx log)) =
              [''modify_nullable'']"
  shows "invoke_modify_command updown (fst (compare_attributes tname cname cc mc ctx log))
           ctx imps =
         modify_col tname cname ctx (PyBool False) PyNone
           (of_nullable (if updown = ''upgrade'' then c_nullable mc else cc_nullable cc))
           (PyType (cc_type cc)) PyNone (of_conn_default (cc_default cc)) imps"
proof -
  note g = group_nullable_only [OF t]
  obtain kw where k: "modify_kw updown (fst (compare_attributes tname cname cc mc ctx log)) = Inr kw"
    and v: "kw ''type_'' = None"
      "kw ''existing_type'' = Some (PyType (cc_type cc))"
      "kw ''nullable'' = Some (if updown = ''upgrade'' then of_nullable (c_nullable mc)
                               else of_nullable (cc_nullable cc))"
      "kw ''existing_nullable'' = None"
      "kw ''server_default'' = None"
      "kw ''existing_server_default'' = Some (of_conn_default (cc_default cc))"
    unfolding g
    using kw_nullable_only [of updown tname cname "PyType (cc_type cc)"
            "of_conn_default (cc_default cc)" "of_nullable (cc_nullable cc)"
            "of_nullable (c_nullable mc)"]
    by auto
  from k have k': "modify_kw updown
     [Modify ''modify_nullable'' tname cname
        [(''existing_type'', PyType (cc_type cc)),
         (''existing_server_default'', of_conn_default (cc_default cc))]
        (of_nullable (cc_nullable cc)) (of_nullable (c_nullable mc))] = Inr kw"
    by (simp add: g)
  show ?thesis
    unfolding g using k' v by (simp add: invoke_modify_command_def kwarg_def)
qed

text \<open>
  Claim C8. A call rendered by \<^verbatim>\<open>_invoke_modify_command\<close> starts with the field
  \<^verbatim>\<open>existing_type\<close>, whatever the group changes. For a group that only changes the
  nullable flag, the call is that of \<^verbatim>\<open>_modify_col\<close> with \<^verbatim>\<open>existing_type\<close> the
  observed type in both directions, and with \<^verbatim>\<open>nullable\<close> the declared flag on upgrade
  and the observed flag on downgrade.
\<close>

theorem C8_existing_type_always:
  "(invoke_modify_command updown args ctx imps = Inr (rendered, imps') \<longrightarrow>
      (\<exists>d0 ds kw r rest. args = d0 # ds \<and> modify_kw updown args = Inr kw \<and>
         repr_type (sqlalchemy_autogenerate_prefix ctx) (kwarg kw ''existing_type'' PyNone)
           ctx imps = Inr r \<and>
         rendered = alembic_autogenerate_prefix ctx @ ''alter_column('' @
                repr_str ctx (m_tname d0) @ '', '' @ repr_str ctx (m_cname d0) @ '', '' @ nl @
                replicate 11 (CHR '' '') @ ''existing_type='' @ fst r @ rest)) \<and>
   (map m_tag (fst (compare_attributes tname cname conn_col metadata_col ctx log)) =
      [''modify_nullable''] \<longrightarrow>
      invoke_modify_command updown
        (fst (compare_attributes tname cname conn_col metadata_col ctx log)) ctx imps =
      modify_col tname cname ctx (PyBool False) PyNone
        (of_nullable (if updown = ''upgrade'' then c_nullable metadata_col
                      else cc_nullable conn_col))
        (PyType (cc_type conn_col)) PyNone (of_conn_default (cc_default conn_col)) imps)"
  (is "?A \<and> ?B")
proof -
  have a: ?A
    using invoke_modify_command_text [of updown args ctx imps rendered "imps'"]
    by (rule impI)
  have b: ?B
    using invoke_nullable_only [of tname cname conn_col metadata_col ctx log updown imps]
    by (rule impI)
  from a b show ?thesis by (rule conjI)
qed

theorem C8_existing_type_always_witness:
  "map m_tag (fst (compare_attributes ''users'' ''email'' ex_conn_email ex_meta_email
                     example_context [])) = [''modify_nullable''] \<and>
   invoke_modify_command ''upgrade''
     (fst (compare_attributes ''users'' ''email'' ex_conn_email ex_meta_email
             example_context [])) example_context None =
     Inr (''op.alter_column('' @ sq @ ''users'' @ sq @ '', '' @ sq @ ''email'' @ sq @ '', '' @
          nl @ ''           existing_type=sa.VARCHAR(length=50), '' @
          nl @ ''           nullable=False)'', None) \<and>
   invoke_modify_command ''downgrade''
     (fst (compare_attributes ''users'' ''email'' ex_conn_email ex_meta_email
             example_context [])) example_context None =
     Inr (''op.alter_column('' @ sq @ ''users'' @ sq @ '', '' @ sq @ ''email'' @ sq @ '', '' @
          nl @ ''           existing_type=sa.VARCHAR(length=50), '' @
          nl @ ''           nullable=True)'', None) \<and>
   ty_repr (cc_type ex_conn_email) = ''VARCHAR(length=50)''"
  (is "?T \<and> ?U \<and> ?D \<and> ?R")
proof -
  have t: ?T
    by (simp add: compare_attributes_group ex_conn_email_def ex_meta_email_def
          example_context_def ex_varchar_def)
  note w = C8_existing_type_always [where tname = "''users''" and cname = "''email''"
      and conn_col = ex_conn_email and metadata_col = ex_meta_email
      and ctx = example_context and log = "[]" and imps = None, THEN conjunct2, rule_format, OF t]
  have m: "modify_col ''users'' ''email'' example_context (PyBool False) PyNone (PyBool b)
             (PyType ex_varchar) PyNone PyNone None =
     Inr (''op.alter_column('' @ sq @ ''users'' @ sq @ '', '' @ sq @ ''email'' @ sq @ '', '' @
          nl @ ''           existing_type=sa.VARCHAR(length=50), '' @
          nl @ ''           nullable='' @ (if b then ''True'' else ''False'') @ '')'', None)" for b
    by (simp add: modify_col_def modify_col_fields_def repr_type_def
          sqlalchemy_autogenerate_prefix_def alembic_autogenerate_prefix_def
          example_context_def example_opts_def ex_varchar_def eval_nat_numeral)
  have u: ?U
    using w [of "''upgrade''"] m [of False]
    by (simp add: ex_conn_email_def ex_meta_email_def)
  have d: ?D
    using w [of "''downgrade''"] m [of True]
    by (simp add: ex_conn_email_def ex_meta_email_def)
  have r: ?R by (simp add: ex_conn_email_def ex_varchar_def)
  from t u d r show ?thesis by (intro conjI)
qed

subsection \<open>The two command sequences\<close>

lemma mapR_list_all2:
  "mapR f xs imps = Inr (ys, imps') \<Longrightarrow>
   list_all2 (\<lambda>x y. \<exists>i i'. f x i = Inr (y, i')) xs ys"
proof (induction xs arbitrary: ys imps)
  case Nil
  then show ?case by simp
next
  case (Cons x xs)
  from Cons.prems obtain y i1 zs where
    a: "f x imps = Inr (y, i1)" and b: "mapR f xs i1 = Inr (zs, imps')" and c: "ys = y # zs"
    by (auto split: sum.splits prod.splits)
  from Cons.IH [OF b] a c show ?case by auto
qed

lemma produce_commands_shape:
  assumes "bindE (mapR (\<lambda>d. invoke_command updown d ctx) diffs imps)
       (\<lambda>r. Inr (join nl (if fst r = [] then [''pass''] else fst r), snd r)) = Inr (res, imps')"
  shows "\<exists>buf. list_all2 (\<lambda>d s. \<exists>i i'. invoke_command updown d ctx i = Inr (s, i')) diffs buf \<and>
           res = join nl (if buf = [] then [''pass''] else buf)"
proof -
  from assms obtain buf where
    m: "mapR (\<lambda>d. invoke_command updown d ctx) diffs imps = Inr (buf, imps')"
    and r: "res = join nl (if buf = [] then [''pass''] else buf)"
    by (auto simp: bindE_eq_Inr)
  from mapR_list_all2 [OF m] r show ?thesis by blast
qed

lemma run_shape:
  assumes "produce_migration_diffs ctx template_args imps log = Inr (ta, imps3, log')"
  shows "\<exists>metadata ds up down i1 i.
           target_metadata (ctx_opts ctx) = Some metadata \<and>
           produce_net_changes metadata ctx ([], log) = Inr (ds, log') \<and>
           produce_upgrade_commands ds ctx imps = Inr (up, i1) \<and>
           produce_downgrade_commands ds ctx i1 = Inr (down, imps3) \<and>
           imps3 = Some i \<and>
           ta = template_args
                  (upgrade_token (ctx_opts ctx) \<mapsto> indent up,
                   downgrade_token (ctx_opts ctx) \<mapsto> indent down,
                   ''imports'' \<mapsto> join nl (sort i))"
  using assms
  by (auto simp: produce_migration_diffs_def bindE_eq_Inr split: option.splits)

lemma mapR_total:
  "(\<forall>x \<in> set xs. \<forall>i. \<exists>y i'. f x i = Inr (y, i')) \<Longrightarrow> \<exists>ys i'. mapR f xs imps = Inr (ys, i')"
proof (induction xs arbitrary: imps)
  case Nil
  then show ?case by simp
next
  case (Cons x xs)
  from Cons.prems obtain y i1 where a: "f x imps = Inr (y, i1)" by fastforce
  from Cons.prems have "\<forall>x \<in> set xs. \<forall>i. \<exists>y i'. f x i = Inr (y, i')" by simp
  from Cons.IH [OF this, of i1] obtain ys i2 where b: "mapR f xs i1 = Inr (ys, i2)" by blast
  from a b show ?case by simp
qed

lemma produce_commands_total:
  assumes "\<forall>d \<in> set diffs. \<forall>i. \<exists>s i'. invoke_command updown d ctx i = Inr (s, i')"
  shows "\<exists>res i'. bindE (mapR (\<lambda>d. invoke_command updown d ctx) diffs imps)
       (\<lambda>r. Inr (join nl (if fst r = [] then [''pass''] else fst r), snd r)) = Inr (res, i')"
  using mapR_total [of diffs "\<lambda>d. invoke_command updown d ctx" imps, OF assms]
  by auto

lemma ex_users_renders:
  "invoke_command ''upgrade'' (AddDrop ''add_table'' (TableArgs ex_users)) ex_run_context i =
     Inr (''op.create_table('' @ sq @ ''users'' @ sq @ '','' @ nl @
          ''sa.Column('' @ sq @ ''email'' @ sq @ '', sa.VARCHAR(length=50), nullable=False)'' @
          nl @ '')'', i)"
  by (simp add: invoke_adddrop_command_def commands_def
        add_table_def render_column_def repr_type_def
        alembic_autogenerate_prefix_def sqlalchemy_autogenerate_prefix_def
        ex_run_context_def example_context_def example_opts_def ex_users_def ex_varchar_def
        List.map_filter_def)

lemma ex_run_diffs:
  "produce_net_changes [ex_users] ex_run_context ([], []) =
     Inr ([AddDrop ''add_table'' (TableArgs ex_users)],
          [''Detected added table '' @ sq @ ''users'' @ sq])"
  by (simp add: produce_net_changes_def compare_tables_def py_set_def difference_def
        intersection_def dict_keys_def tables_def dict_item_def dict_get_def
        ex_run_context_def example_context_def ex_users_def)

lemma ex_run_up:
  "produce_upgrade_commands [AddDrop ''add_table'' (TableArgs ex_users)] ex_run_context imps =
     Inr (''op.create_table('' @ sq @ ''users'' @ sq @ '','' @ nl @
          ''sa.Column('' @ sq @ ''email'' @ sq @ '', sa.VARCHAR(length=50), nullable=False)'' @
          nl @ '')'', imps)"
  by (simp add: produce_upgrade_commands_def invoke_adddrop_command_def commands_def
        add_table_def drop_table_def render_column_def repr_type_def
        alembic_autogenerate_prefix_def sqlalchemy_autogenerate_prefix_def
        ex_run_context_def example_context_def example_opts_def ex_users_def ex_varchar_def
        List.map_filter_def)

lemma ex_run_down:
  "produce_downgrade_commands [AddDrop ''add_table'' (TableArgs ex_users)] ex_run_context imps =
     Inr (''op.drop_table('' @ sq @ ''users'' @ sq @ '')'', imps)"
  by (simp add: produce_downgrade_commands_def invoke_adddrop_command_def commands_def
        drop_table_def alembic_autogenerate_prefix_def
        ex_run_context_def example_context_def example_opts_def ex_users_def)

lemma ex_run:
  "produce_migration_diffs ex_run_context Map.empty (Some []) [] =
     Inr ([''upgrades'' \<mapsto>
             indent (''op.create_table('' @ sq @ ''users'' @ sq @ '','' @ nl @
               ''sa.Column('' @ sq @ ''email'' @ sq @
               '', sa.VARCHAR(length=50), nullable=False)'' @ nl @ '')''),
           ''downgrades'' \<mapsto> indent (''op.drop_table('' @ sq @ ''users'' @ sq @ '')''),
           ''imports'' \<mapsto> []],
          Some [], [''Detected added table '' @ sq @ ''users'' @ sq])"
proof -
  have t: "target_metadata (ctx_opts ex_run_context) = Some [ex_users]"
    "upgrade_token (ctx_opts ex_run_context) = ''upgrades''"
    "downgrade_token (ctx_opts ex_run_context) = ''downgrades''"
    by (simp_all add: ex_run_context_def example_opts_def)
  show ?thesis
    by (simp add: produce_migration_diffs_def t ex_run_diffs ex_run_up ex_run_down)
qed

text \<open>
  Claim C7. On an empty diff list each of the two command sequences is \<^verbatim>\<open>pass\<close>.
  Otherwise, a sequence that is produced is the lines, joined by newlines, of one rendered
  command for every diff, in the order of the diff list; it is produced whenever every
  diff of the list can be rendered. A run that returns has rendered
  both sequences from the one diff list of its comparison, the upgrade sequence first,
  and stores them under the two tokens.
\<close>

theorem C7_command_sequences:
  "produce_upgrade_commands [] ctx imps = Inr (''pass'', imps) \<and>
   produce_downgrade_commands [] ctx imps = Inr (''pass'', imps) \<and>
   (produce_upgrade_commands diffs ctx imps = Inr (up, imps1) \<longrightarrow>
      (\<exists>buf. list_all2 (\<lambda>d s. \<exists>i i'. invoke_command ''upgrade'' d ctx i = Inr (s, i'))
                diffs buf \<and>
             up = join nl (if buf = [] then [''pass''] else buf))) \<and>
   (produce_downgrade_commands diffs ctx imps = Inr (down, imps2) \<longrightarrow>
      (\<exists>buf. list_all2 (\<lambda>d s. \<exists>i i'. invoke_command ''downgrade'' d ctx i = Inr (s, i'))
                diffs buf \<and>
             down = join nl (if buf = [] then [''pass''] else buf))) \<and>
   (produce_migration_diffs ctx template_args imps log = Inr (ta, imps3, log') \<longrightarrow>
      (\<exists>metadata ds up1 down1 i1 i.
           target_metadata (ctx_opts ctx) = Some metadata \<and>
           produce_net_changes metadata ctx ([], log) = Inr (ds, log') \<and>
           produce_upgrade_commands ds ctx imps = Inr (up1, i1) \<and>
           produce_downgrade_commands ds ctx i1 = Inr (down1, imps3) \<and>
           imps3 = Some i \<and>
           ta = template_args
                  (upgrade_token (ctx_opts ctx) \<mapsto> indent up1,
                   downgrade_token (ctx_opts ctx) \<mapsto> indent down1,
                   ''imports'' \<mapsto> join nl (sort i)))) \<and>
   ((\<forall>d \<in> set diffs. \<forall>i. \<exists>s i'. invoke_command ''upgrade'' d ctx i = Inr (s, i')) \<longrightarrow>
      (\<exists>res i'. produce_upgrade_commands diffs ctx imps = Inr (res, i'))) \<and>
   ((\<forall>d \<in> set diffs. \<forall>i. \<exists>s i'. invoke_command ''downgrade'' d ctx i = Inr (s, i')) \<longrightarrow>
      (\<exists>res i'. produce_downgrade_commands diffs ctx imps = Inr (res, i')))"
  (is "?A \<and> ?B \<and> ?C \<and> ?D \<and> ?E \<and> ?F \<and> ?G")
proof -
  have a: ?A by (simp add: produce_upgrade_commands_def)
  have b: ?B by (simp add: produce_downgrade_commands_def)
  have c: ?C
    unfolding produce_upgrade_commands_def
    using produce_commands_shape [of "''upgrade''" ctx diffs imps up imps1] by (rule impI)
  have d: ?D
    unfolding produce_downgrade_commands_def
    using produce_commands_shape [of "''downgrade''" ctx diffs imps down imps2] by (rule impI)
  have e: ?E
    using run_shape [of ctx template_args imps log ta imps3 log'] by (rule impI)
  have f: ?F
    unfolding produce_upgrade_commands_def
    using produce_commands_total [of diffs "''upgrade''" ctx imps] by (rule impI)
  have g: ?G
    unfolding produce_downgrade_commands_def
    using produce_commands_total [of diffs "''downgrade''" ctx imps] by (rule impI)
  from a b c d e f g show ?thesis by (intro conjI)
qed

theorem C7_command_sequences_witness:
  "(\<forall>i. \<exists>s i'. invoke_command ''upgrade'' (AddDrop ''add_table'' (TableArgs ex_users))
             ex_run_context i = Inr (s, i')) \<and>
   produce_upgrade_commands [AddDrop ''add_table'' (TableArgs ex_users)] ex_run_context None =
     Inr (''op.create_table('' @ sq @ ''users'' @ sq @ '','' @ nl @
          ''sa.Column('' @ sq @ ''email'' @ sq @ '', sa.VARCHAR(length=50), nullable=False)'' @
          nl @ '')'', None) \<and>
   produce_downgrade_commands [AddDrop ''add_table'' (TableArgs ex_users)] ex_run_context None =
     Inr (''op.drop_table('' @ sq @ ''users'' @ sq @ '')'', None) \<and>
   (\<exists>buf. list_all2 (\<lambda>d s. \<exists>i i'. invoke_command ''upgrade'' d ex_run_context i = Inr (s, i'))
            [AddDrop ''add_table'' (TableArgs ex_users)] buf \<and>
          ''op.create_table('' @ sq @ ''users'' @ sq @ '','' @ nl @
          ''sa.Column('' @ sq @ ''email'' @ sq @ '', sa.VARCHAR(length=50), nullable=False)'' @
          nl @ '')'' = join nl buf) \<and>
   (\<exists>buf. list_all2 (\<lambda>d s. \<exists>i i'. invoke_command ''downgrade'' d ex_run_context i = Inr (s, i'))
            [AddDrop ''add_table'' (TableArgs ex_users)] buf \<and>
          ''op.drop_table('' @ sq @ ''users'' @ sq @ '')'' = join nl buf) \<and>
   (\<exists>ta. produce_migration_diffs ex_run_context Map.empty (Some []) [] =
            Inr (ta, Some [], [''Detected added table '' @ sq @ ''users'' @ sq]) \<and>
         ta ''upgrades'' =
           Some (indent (''op.create_table('' @ sq @ ''users'' @ sq @ '','' @ nl @
               ''sa.Column('' @ sq @ ''email'' @ sq @
               '', sa.VARCHAR(length=50), nullable=False)'' @ nl @ '')'')) \<and>
         ta ''downgrades'' = Some (indent (''op.drop_table('' @ sq @ ''users'' @ sq @ '')'')))"
  (is "?H \<and> ?U \<and> ?D \<and> ?LU \<and> ?LD \<and> ?R")
proof -
  have h: ?H using ex_users_renders by blast
  note w = C7_command_sequences [where ctx = ex_run_context and imps = None
      and diffs = "[AddDrop ''add_table'' (TableArgs ex_users)]"]
  have u: ?U by (rule ex_run_up)
  have d: ?D by (rule ex_run_down)
  from w [THEN conjunct2, THEN conjunct2, THEN conjunct1, rule_format, OF u]
  obtain buf where
    l: "list_all2 (\<lambda>d s. \<exists>i i'. invoke_command ''upgrade'' d ex_run_context i = Inr (s, i'))
          [AddDrop ''add_table'' (TableArgs ex_users)] buf"
    and e: "''op.create_table('' @ sq @ ''users'' @ sq @ '','' @ nl @
          ''sa.Column('' @ sq @ ''email'' @ sq @ '', sa.VARCHAR(length=50), nullable=False)'' @
          nl @ '')'' = join nl (if buf = [] then [''pass''] else buf)"
    by blast
  from l have "buf \<noteq> []" by auto
  with e have "''op.create_table('' @ sq @ ''users'' @ sq @ '','' @ nl @
          ''sa.Column('' @ sq @ ''email'' @ sq @ '', sa.VARCHAR(length=50), nullable=False)'' @
          nl @ '')'' = join nl buf"
    by (simp only: if_False)
  with l have lu: ?LU by blast
  from w [THEN conjunct2, THEN conjunct2, THEN conjunct2, THEN conjunct1, rule_format, OF d]
  obtain buf2 where
    l2: "list_all2 (\<lambda>d s. \<exists>i i'. invoke_command ''downgrade'' d ex_run_context i = Inr (s, i'))
          [AddDrop ''add_table'' (TableArgs ex_users)] buf2"
    and e2: "''op.drop_table('' @ sq @ ''users'' @ sq @ '')'' =
             join nl (if buf2 = [] then [''pass''] else buf2)"
    by blast
  from l2 have "buf2 \<noteq> []" by auto
  with e2 have "''op.drop_table('' @ sq @ ''users'' @ sq @ '')'' = join nl buf2"
    by (simp only: if_False)
  with l2 have ld: ?LD by blast
  have r: ?R
    by (rule exI, rule conjI, rule ex_run) simp_all
  from h u d lu ld r show ?thesis by (intro conjI)
qed

subsection \<open>The missing MetaData object\<close>

lemma rce_simps:
  "\<not> raises_command_error (Inr x)"
  "\<not> raises_command_error (Inl (KeyError k))"
  "\<not> raises_command_error (Inl IndexError)"
  "\<not> raises_command_error (Inl ValueError)"
  "\<not> raises_command_error (Inl TypeError)"
  "\<not> raises_command_error (Inl AttributeError)"
  "raises_command_error (Inl (CommandError m))"
  by (simp_all add: raises_command_error_def)

lemma rce_bindE:
  "\<not> raises_command_error m \<Longrightarrow> (\<And>x. \<not> raises_command_error (f x)) \<Longrightarrow>
   \<not> raises_command_error (bindE m f)"
  by (cases m) (auto simp: raises_command_error_def)

lemma rce_foldE:
  "(\<And>x s. \<not> raises_command_error (f x s)) \<Longrightarrow> \<not> raises_command_error (foldE f xs s)"
proof (induction xs arbitrary: s)
  case Nil
  then show ?case by (simp add: rce_simps)
next
  case (Cons x xs)
  show ?case
  proof (cases "f x s")
    case (Inl e)
    with Cons.prems [of x s] show ?thesis by simp
  next
    case (Inr s')
    with Cons.IH [OF Cons.prems] show ?thesis by simp
  qed
qed

lemma rce_mapR:
  "(\<And>x i. \<not> raises_command_error (f x i)) \<Longrightarrow> \<not> raises_command_error (mapR f xs imps)"
proof (induction xs arbitrary: imps)
  case Nil
  then show ?case by (simp add: rce_simps)
next
  case (Cons x xs)
  show ?case
  proof (cases "f x imps")
    case (Inl e)
    with Cons.prems [of x imps] show ?thesis
      by (auto simp: raises_command_error_def split: error.splits)
  next
    case (Inr r)
    obtain y i1 where r: "r = (y, i1)" by (cases r)
    from Cons.IH [OF Cons.prems, of i1] Inr r show ?thesis
      by (cases "mapR f xs i1") (auto simp: raises_command_error_def)
  qed
qed

lemma rce_dict_item: "\<not> raises_command_error (dict_item d k)"
  by (simp add: dict_item_def rce_simps split: option.splits)

lemma rce_compare_columns:
  "\<not> raises_command_error (compare_columns tname conn_table metadata_table ctx st)"
  unfolding compare_columns_def Let_def
  by (intro rce_bindE rce_foldE rce_dict_item rce_simps)

lemma rce_compare_tables:
  "\<not> raises_command_error (compare_tables cs ms metadata ctx st)"
  unfolding compare_tables_def Let_def
  by (intro rce_bindE rce_foldE rce_dict_item rce_simps rce_compare_columns)

lemma rce_produce_net_changes:
  "\<not> raises_command_error (produce_net_changes metadata ctx st)"
  unfolding produce_net_changes_def Let_def by (rule rce_compare_tables)

lemma rce_repr_type: "\<not> raises_command_error (repr_type prefix ty ctx imps)"
  by (simp add: repr_type_def Let_def rce_simps split: option.splits)

lemma rce_render_column: "\<not> raises_command_error (render_column col ctx imps)"
  unfolding render_column_def Let_def
  by (intro rce_bindE rce_repr_type rce_simps)

lemma rce_add_table: "\<not> raises_command_error (add_table tbl ctx imps)"
  unfolding add_table_def
  by (intro rce_bindE rce_mapR rce_render_column rce_simps)

lemma rce_add_column: "\<not> raises_command_error (add_column tname col ctx imps)"
  unfolding add_column_def
  by (intro rce_bindE rce_render_column rce_simps)

lemma rce_modify_col_fields:
  "\<not> raises_command_error (modify_col_fields ctx sd nt n et en esd imps)"
  unfolding modify_col_fields_def Let_def
  by (intro rce_bindE rce_repr_type rce_simps) (simp add: rce_bindE rce_repr_type rce_simps)

lemma rce_modify_col:
  "\<not> raises_command_error (modify_col tname cname ctx sd nt n et en esd imps)"
  unfolding modify_col_def
  by (intro rce_bindE rce_modify_col_fields rce_simps)

lemma rce_merge_diff: "\<not> raises_command_error (merge_diff updown d kw)"
  by (simp add: merge_diff_def Let_def rce_simps split: option.splits prod.splits)

lemma rce_modify_kw: "\<not> raises_command_error (modify_kw updown args)"
  unfolding modify_kw_def Let_def
  by (intro rce_bindE rce_foldE rce_merge_diff rce_simps)

lemma rce_invoke_modify_command:
  "\<not> raises_command_error (invoke_modify_command updown args ctx imps)"
  unfolding invoke_modify_command_def
  by (cases args) (simp_all add: rce_simps rce_bindE rce_modify_kw rce_modify_col)

lemma rce_invoke_adddrop_command:
  "\<not> raises_command_error (invoke_adddrop_command updown tag a ctx imps)"
  by (auto simp: invoke_adddrop_command_def commands_def rce_simps rce_add_table rce_add_column
        split: list.splits option.splits cmd_args.splits)

lemma rce_invoke_command: "\<not> raises_command_error (invoke_command updown d ctx imps)"
  by (cases d) (simp_all add: rce_invoke_adddrop_command rce_invoke_modify_command)

lemma rce_produce_upgrade_commands:
  "\<not> raises_command_error (produce_upgrade_commands diffs ctx imps)"
  unfolding produce_upgrade_commands_def
  by (intro rce_bindE rce_mapR rce_invoke_command rce_simps)

lemma rce_produce_downgrade_commands:
  "\<not> raises_command_error (produce_downgrade_commands diffs ctx imps)"
  unfolding produce_downgrade_commands_def
  by (intro rce_bindE rce_mapR rce_invoke_command rce_simps)

text \<open>
  Claim C9. Without a target MetaData object the entry point raises CommandError, with a
  message that names the environment script and the missing object; the result is the
  error alone, no template argument is set. With a MetaData object the entry point never
  raises CommandError.
\<close>

theorem C9_missing_metadata:
  "(target_metadata (ctx_opts ctx) = None \<longrightarrow>
      produce_migration_diffs ctx template_args imps log =
        Inl (CommandError
               (''Can'' @ sq @ ''t proceed with --autogenerate option; environment script '' @
                env_py_location ctx @
                '' does not provide a MetaData object to the context.''))) \<and>
   (target_metadata (ctx_opts ctx) \<noteq> None \<longrightarrow>
      produce_migration_diffs ctx template_args imps log \<noteq> Inl (CommandError msg))"
proof (intro conjI impI)
  assume "target_metadata (ctx_opts ctx) = None"
  then show "produce_migration_diffs ctx template_args imps log =
        Inl (CommandError
               (''Can'' @ sq @ ''t proceed with --autogenerate option; environment script '' @
                env_py_location ctx @
                '' does not provide a MetaData object to the context.''))"
    by (simp add: produce_migration_diffs_def)
next
  assume "target_metadata (ctx_opts ctx) \<noteq> None"
  then obtain metadata where m: "target_metadata (ctx_opts ctx) = Some metadata" by auto
  have "\<not> raises_command_error (produce_migration_diffs ctx template_args imps log)"
    unfolding produce_migration_diffs_def m option.case
    by (intro rce_bindE rce_produce_net_changes rce_produce_upgrade_commands
          rce_produce_downgrade_commands)
       (simp add: rce_simps split: option.splits)
  then show "produce_migration_diffs ctx template_args imps log \<noteq> Inl (CommandError msg)"
    by (auto simp: rce_simps)
qed

theorem C9_missing_metadata_witness:
  "target_metadata (ctx_opts example_context) = None \<and>
   produce_migration_diffs example_context Map.empty (Some []) [] =
     Inl (CommandError
            (''Can'' @ sq @ ''t proceed with --autogenerate option; environment script env.py'' @
             '' does not provide a MetaData object to the context.'')) \<and>
   target_metadata (ctx_opts ex_run_context) \<noteq> None \<and>
   (\<exists>r. produce_migration_diffs ex_run_context Map.empty (Some []) [] = Inr r)"
proof -
  have h1: "target_metadata (ctx_opts example_context) = None"
    by (simp add: example_context_def example_opts_def)
  have h2: "target_metadata (ctx_opts ex_run_context) \<noteq> None"
    by (simp add: ex_run_context_def)
  note w1 = C9_missing_metadata [of example_context Map.empty "Some []" "[]",
              THEN conjunct1, rule_format, OF h1]
  have e: "env_py_location example_context = ''env.py''"
    by (simp add: example_context_def)
  from w1 e have a: "produce_migration_diffs example_context Map.empty (Some []) [] =
     Inl (CommandError
            (''Can'' @ sq @ ''t proceed with --autogenerate option; environment script env.py'' @
             '' does not provide a MetaData object to the context.''))"
    by simp
  have b: "\<exists>r. produce_migration_diffs ex_run_context Map.empty (Some []) [] = Inr r"
    using ex_run by blast
  from h1 a h2 b show ?thesis by (intro conjI)
qed

subsection \<open>The version table\<close>

lemma foldE_inv:
  assumes "foldE f xs s = Inr s'" and "P s"
    and "\<And>x s s1. x \<in> set xs \<Longrightarrow> P s \<Longrightarrow> f x s = Inr s1 \<Longrightarrow> P s1"
  shows "P s'"
  using assms
proof (induction xs arbitrary: s)
  case Nil
  then show ?case by simp
next
  case (Cons x xs)
  from Cons.prems(1) obtain s1 where a: "f x s = Inr s1" and b: "foldE f xs s1 = Inr s'"
    by (auto split: sum.splits)
  show ?case
  proof (rule Cons.IH [OF b])
    show "P s1" using Cons.prems(3) [of x s s1] Cons.prems(2) a by simp
  next
    fix y t t1
    assume "y \<in> set xs" "P t" "f y t = Inr t1"
    then show "P t1" using Cons.prems(3) [of y t t1] by simp
  qed
qed

lemma dict_item_in:
  "dict_item d k = Inr v \<Longrightarrow> (k, v) \<in> set d"
  by (auto simp: dict_item_def dict_get_def split: option.splits dest: map_of_SomeD)

lemma dict_item_tables:
  "dict_item (tables metadata) k = Inr t \<Longrightarrow> t \<in> set metadata \<and> t_name t = k"
  by (auto dest!: dict_item_in simp: tables_def)

lemma compare_attributes_tname:
  "m \<in> set (fst (compare_attributes tname colname cc mc ctx log)) \<Longrightarrow> m_tname m = tname"
  unfolding compare_attributes_group by (auto split: if_splits)

lemma diff_table_group:
  "g \<noteq> [] \<Longrightarrow> \<forall>m \<in> set g. m_tname m = tname \<Longrightarrow> diff_table (ModifyGroup g) = Some tname"
  by (cases g) auto

lemma compare_columns_tables:
  assumes "compare_columns tname conn_table metadata_table ctx st = Inr st'"
  shows "\<forall>d \<in> set (fst st'). d \<in> set (fst st) \<or> diff_table d = Some tname"
  using assms
  apply (simp only: compare_columns_def Let_def bindE_eq_Inr)
  apply (elim exE conjE)
  apply (erule foldE_inv [where P = "\<lambda>s. \<forall>d \<in> set (fst s). d \<in> set (fst st) \<or> diff_table d = Some tname"])
   apply (erule foldE_inv [where P = "\<lambda>s. \<forall>d \<in> set (fst s). d \<in> set (fst st) \<or> diff_table d = Some tname"])
    apply (erule foldE_inv [where P = "\<lambda>s. \<forall>d \<in> set (fst s). d \<in> set (fst st) \<or> diff_table d = Some tname"])
     apply simp
    apply (auto simp: bindE_eq_Inr)[1]
   apply (auto simp: bindE_eq_Inr)[1]
  apply (auto simp: bindE_eq_Inr diff_table_group compare_attributes_tname split: if_splits)
  done


lemma set_order_ok_difference:
  "set_order_ok ctx \<Longrightarrow> set (difference ctx A B) = set A - set B"
  by (auto simp: set_order_ok_def difference_def)

lemma set_order_ok_intersection:
  "set_order_ok ctx \<Longrightarrow> set (intersection ctx A B) = set A \<inter> set B"
  by (auto simp: set_order_ok_def intersection_def)

lemma foldE_appends:
  assumes "foldE f xs s = Inr s'"
    and "\<forall>d \<in> set (fst s). Q d"
    and "\<And>x s s1. x \<in> set xs \<Longrightarrow> f x s = Inr s1 \<Longrightarrow>
           \<forall>d \<in> set (fst s1). d \<in> set (fst s) \<or> Q d"
  shows "\<forall>d \<in> set (fst s'). Q d"
proof (rule foldE_inv [where P = "\<lambda>s. \<forall>d \<in> set (fst s). Q d", OF assms(1) assms(2)])
  fix x s s1
  assume "x \<in> set xs" "\<forall>d \<in> set (fst s). Q d" "f x s = Inr s1"
  with assms(3) [of x s s1] show "\<forall>d \<in> set (fst s1). Q d" by blast
qed

lemma compare_tables_origin:
  assumes ok: "set_order_ok ctx"
    and c: "compare_tables cs ms metadata ctx st = Inr st'"
    and old: "\<And>d. d \<in> set (fst st) \<Longrightarrow> Q d"
    and added: "\<And>t. t \<in> set metadata \<Longrightarrow> Q (AddDrop ''add_table'' (TableArgs t))"
    and observed: "\<And>d tn. tn \<in> set cs \<Longrightarrow> diff_table d = Some tn \<Longrightarrow> Q d"
  shows "\<forall>d \<in> set (fst st'). Q d"
  using c
  apply (simp only: compare_tables_def Let_def bindE_eq_Inr)
  apply (elim exE conjE)
  apply (erule foldE_appends)
   apply (simp only: fst_conv)
   apply (erule foldE_appends)
    apply (simp only: fst_conv)
    apply (erule foldE_appends)
     apply (simp add: old)
    apply (auto simp: bindE_eq_Inr dest!: dict_item_tables intro: added)[1]
   apply (auto simp: set_order_ok_difference [OF ok] reflected_table_def intro!: observed)[1]
  apply (simp only: bindE_eq_Inr)
  apply (elim exE conjE)
  apply (drule compare_columns_tables)
  apply (auto simp: set_order_ok_intersection [OF ok] intro: observed)
  done


lemma ex_db_context_ok: "set_order_ok ex_db_context"
  by (simp add: set_order_ok_def ex_db_context_def example_context_def)

lemma ex_db_run:
  "produce_net_changes [ex_alembic_version] ex_db_context ([], []) =
     Inr ([AddDrop ''add_table'' (TableArgs ex_alembic_version)],
          [''Detected added table '' @ sq @ ''alembic_version'' @ sq])"
  by (simp add: produce_net_changes_def compare_tables_def py_set_def difference_def
        intersection_def dict_keys_def tables_def dict_item_def dict_get_def
        ex_db_context_def example_context_def ex_alembic_version_def)

text \<open>
  Claim C10, as amended. The name \<^verbatim>\<open>alembic_version\<close> is not among the observed table
  names that are compared. A diff about the table \<^verbatim>\<open>alembic_version\<close> can only be the
  \<^verbatim>\<open>add_table\<close> diff of a declared table of that name: there is no
  \<^verbatim>\<open>remove_table\<close> diff, no column diff and no modify group for it, and no diff at all
  when the declared schema has no such table.
\<close>

theorem C10_alembic_version_excluded:
  assumes ok: "set_order_ok ctx"
    and run: "produce_net_changes metadata ctx ([], log) = Inr (diffs, log')"
  shows "''alembic_version'' \<notin>
           set (difference ctx (py_set ctx (get_table_names ctx)) [''alembic_version'']) \<and>
         (\<forall>d \<in> set diffs. diff_table d = Some ''alembic_version'' \<longrightarrow>
            (\<exists>t \<in> set metadata. t_name t = ''alembic_version'' \<and>
                d = AddDrop ''add_table'' (TableArgs t)))"
proof -
  let ?cs = "difference ctx (py_set ctx (get_table_names ctx)) [''alembic_version'']"
  have a: "''alembic_version'' \<notin> set ?cs"
    by (simp add: set_order_ok_difference [OF ok])
  from run have c: "compare_tables ?cs (py_set ctx (dict_keys (tables metadata))) metadata ctx
      ([], log) = Inr (diffs, log')"
    by (simp add: produce_net_changes_def Let_def)
  have "\<forall>d \<in> set (fst (diffs, log')). diff_table d = Some ''alembic_version'' \<longrightarrow>
            (\<exists>t \<in> set metadata. t_name t = ''alembic_version'' \<and>
                d = AddDrop ''add_table'' (TableArgs t))"
  proof (rule compare_tables_origin [OF ok c])
    fix d :: diff
    assume "d \<in> set (fst ([], log))"
    then show "diff_table d = Some ''alembic_version'' \<longrightarrow>
            (\<exists>t \<in> set metadata. t_name t = ''alembic_version'' \<and>
                d = AddDrop ''add_table'' (TableArgs t))"
      by simp
  next
    fix t
    assume "t \<in> set metadata"
    then show "diff_table (AddDrop ''add_table'' (TableArgs t)) = Some ''alembic_version'' \<longrightarrow>
            (\<exists>u \<in> set metadata. t_name u = ''alembic_version'' \<and>
                AddDrop ''add_table'' (TableArgs t) = AddDrop ''add_table'' (TableArgs u))"
      by auto
  next
    fix d tn
    assume "tn \<in> set ?cs" "diff_table d = Some tn"
    with a show "diff_table d = Some ''alembic_version'' \<longrightarrow>
            (\<exists>t \<in> set metadata. t_name t = ''alembic_version'' \<and>
                d = AddDrop ''add_table'' (TableArgs t))"
      by auto
  qed
  with a show ?thesis by simp
qed

theorem C10_alembic_version_excluded_witness:
  "set_order_ok ex_db_context \<and>
   produce_net_changes [ex_alembic_version] ex_db_context ([], []) =
     Inr ([AddDrop ''add_table'' (TableArgs ex_alembic_version)],
          [''Detected added table '' @ sq @ ''alembic_version'' @ sq]) \<and>
   produce_net_changes [] ex_db_context ([], []) = Inr ([], []) \<and>
   ''alembic_version'' \<notin>
     set (difference ex_db_context (py_set ex_db_context (get_table_names ex_db_context))
            [''alembic_version'']) \<and>
   ex_alembic_version \<in> set [ex_alembic_version] \<and>
   t_name ex_alembic_version = ''alembic_version''"
proof -
  have e: "produce_net_changes [] ex_db_context ([], []) = Inr ([], [])"
    by (simp add: produce_net_changes_def compare_tables_def py_set_def difference_def
          intersection_def dict_keys_def tables_def
          ex_db_context_def example_context_def)
  from C10_alembic_version_excluded [OF ex_db_context_ok ex_db_run]
  have "''alembic_version'' \<notin>
     set (difference ex_db_context (py_set ex_db_context (get_table_names ex_db_context))
            [''alembic_version''])"
    by (rule conjunct1)
  with ex_db_context_ok ex_db_run e show ?thesis
    by (simp add: ex_alembic_version_def)
qed

text \<open>A declared table \<^verbatim>\<open>alembic_version\<close> is reported as added, also when the database
  has the table.\<close>

theorem C10_counterexample:
  "get_table_names ex_db_context = [''alembic_version''] \<and>
   produce_net_changes [ex_alembic_version] ex_db_context ([], []) =
     Inr ([AddDrop ''add_table'' (TableArgs ex_alembic_version)],
          [''Detected added table '' @ sq @ ''alembic_version'' @ sq]) \<and>
   diff_table (AddDrop ''add_table'' (TableArgs ex_alembic_version)) = Some ''alembic_version''"
  using ex_db_run by (simp add: ex_db_context_def ex_alembic_version_def)

subsection \<open>The order of the diff list\<close>

text \<open>Both example orders iterate over exactly the elements of a set. The tables that exist
  on both sides are compared in sorted order of their names, whatever the iteration order
  of sets is.\<close>

lemma ex_hash_context_ok: "set_order_ok ex_hash_context"
  by (simp add: set_order_ok_def ex_hash_context_def)

lemma example_context_ok: "set_order_ok example_context"
  by (simp add: set_order_ok_def example_context_def)

lemma existing_tables_sorted:
  assumes "set_order_ok ctx" and "distinct A"
  shows "sort (intersection ctx A B) = sort (filter (\<lambda>x. x \<in> set B) A)"
proof (rule sorted_distinct_set_unique)
  show "sorted (sort (intersection ctx A B))" by simp
  show "sorted (sort (filter (\<lambda>x. x \<in> set B) A))" by simp
  from assms show "distinct (sort (intersection ctx A B))"
    by (simp add: intersection_def set_order_ok_def)
  from assms show "distinct (sort (filter (\<lambda>x. x \<in> set B) A))" by simp
  from assms show "set (sort (intersection ctx A B)) = set (sort (filter (\<lambda>x. x \<in> set B) A))"
    by (simp add: intersection_def set_order_ok_def)
qed

text \<open>
  Claim C6. The diff list follows the iteration order of Python sets wherever the code
  does not sort: for the three declared tables \<^verbatim>\<open>a\<close>, \<^verbatim>\<open>b\<close>, \<^verbatim>\<open>c\<close> and an empty
  database, the \<^verbatim>\<open>add_table\<close> diffs come in the order a, c, b under one admissible
  iteration order and in the order a, b, c under another. So the list is not in sorted
  order of table names, and two runs on the same pair of schemas agree only if the
  runtime iterates its sets in the same order.
\<close>

theorem C6_diff_order_follows_set_iteration:
  "produce_net_changes [ex_table_a, ex_table_b, ex_table_c] ex_hash_context ([], []) =
     Inr ([AddDrop ''add_table'' (TableArgs ex_table_a),
           AddDrop ''add_table'' (TableArgs ex_table_c),
           AddDrop ''add_table'' (TableArgs ex_table_b)],
          [''Detected added table '' @ sq @ ''a'' @ sq,
           ''Detected added table '' @ sq @ ''c'' @ sq,
           ''Detected added table '' @ sq @ ''b'' @ sq]) \<and>
   produce_net_changes [ex_table_a, ex_table_b, ex_table_c] example_context ([], []) =
     Inr ([AddDrop ''add_table'' (TableArgs ex_table_a),
           AddDrop ''add_table'' (TableArgs ex_table_b),
           AddDrop ''add_table'' (TableArgs ex_table_c)],
          [''Detected added table '' @ sq @ ''a'' @ sq,
           ''Detected added table '' @ sq @ ''b'' @ sq,
           ''Detected added table '' @ sq @ ''c'' @ sq])"
  by (simp add: produce_net_changes_def compare_tables_def py_set_def difference_def
        intersection_def dict_keys_def tables_def dict_item_def dict_get_def
        ex_hash_context_def example_context_def ex_table_a_def ex_table_b_def ex_table_c_def
        ex_slot_def)

end
